theory Spec2Isabelle
  imports Complex_Main "HOL-Library.Sublist" "HOL-Library.Word"
begin

unbundle bit_operations_syntax

section \<open>Python values used by run\_prog.py\<close>

text \<open>
  The script \<^verbatim>\<open>run_prog.py\<close> is modelled function by function. Python's unbounded
  integers are \<^typ>\<open>int\<close>, its strings are \<^typ>\<open>string\<close>, and its floats are the
  rationals that binary64 can represent (every finite double is a rational number).
  Exceptions are values of the type \<open>exn\<close>; a computation that may raise returns
  \<open>exn + 'a\<close>.
\<close>

datatype exn =
    SystemExit int
  | SystemExitMsg string
  | NameError string
  | EOFError
  | ValueError
  | FileNotFoundError
  | CalledProcessError int
  | UnicodeDecodeError
  | KeyboardInterrupt

text \<open>
  \<^verbatim>\<open>except Exception\<close> catches every exception of the model except the three that
  derive from \<^verbatim>\<open>BaseException\<close> only.
\<close>

fun is_Exception :: "exn \<Rightarrow> bool" where
  "is_Exception (SystemExit _) = False"
| "is_Exception (SystemExitMsg _) = False"
| "is_Exception KeyboardInterrupt = False"
| "is_Exception _ = True"

text \<open>
  The status with which the interpreter leaves: the argument of \<^verbatim>\<open>sys.exit\<close> when it
  is an integer, 1 when it is a message or when an exception reaches the top level, 0 when
  the script runs to its end.
\<close>

fun exit_status :: "exn + 'a \<Rightarrow> int" where
  "exit_status (Inr _) = 0"
| "exit_status (Inl (SystemExit n)) = n"
| "exit_status (Inl _) = 1"

subsection \<open>Strings\<close>

text \<open>
  A Python \<^verbatim>\<open>str\<close> is modelled by the bytes of its UTF-8 form, so a character beyond
  ASCII is two to four values of \<^typ>\<open>char\<close>. Searching for an ASCII text and cutting at
  an ASCII character give the same result on the bytes as on the characters. Where
  Python looks at characters beyond ASCII (white space, line boundaries), the model
  looks at their byte sequences.
\<close>

abbreviation nl :: string where "nl \<equiv> [CHR 0x0A]"
abbreviation cr :: string where "cr \<equiv> [CHR 0x0D]"
abbreviation sq :: string where "sq \<equiv> [CHR 0x27]"

text \<open>The full block U+2588 of the progress bar, as the three bytes of its UTF-8 form.\<close>

definition full_block :: string where
  "full_block = [CHR 0xE2, CHR 0x96, CHR 0x88]"

text \<open>The digit of a value below 16; the script prints in base 10 and base 16 only.\<close>

definition digit_char :: "bool \<Rightarrow> nat \<Rightarrow> char" where
  "digit_char upper d = (if upper then ''0123456789ABCDEF'' else ''0123456789abcdef'') ! d"

fun digits_of :: "bool \<Rightarrow> nat \<Rightarrow> nat \<Rightarrow> string" where
  "digits_of upper b n =
     (if b < 2 \<or> n < b then [digit_char upper n]
      else digits_of upper b (n div b) @ [digit_char upper (n mod b)])"

declare digits_of.simps [simp del]

text \<open>\<^verbatim>\<open>str(n)\<close>, also what an f-string does with \<^verbatim>\<open>{n}\<close>.\<close>

definition str_int :: "int \<Rightarrow> string" where
  "str_int n = (if n < 0 then ''-'' else []) @ digits_of False 10 (nat \<bar>n\<bar>)"

text \<open>\<^verbatim>\<open>hex(n)\<close>: lower-case digits after \<^verbatim>\<open>0x\<close>.\<close>

definition hex :: "int \<Rightarrow> string" where
  "hex n = (if n < 0 then ''-'' else []) @ ''0x'' @ digits_of False 16 (nat \<bar>n\<bar>)"

definition zfill :: "nat \<Rightarrow> string \<Rightarrow> string" where
  "zfill width s = replicate (width - length s) CHR ''0'' @ s"

text \<open>
  The format specifications \<^verbatim>\<open>:X\<close> (width 0), \<^verbatim>\<open>:04X\<close> and \<^verbatim>\<open>:08X\<close>: upper-case
  hexadecimal digits, padded with zeros to the width, the sign counted in the width.
\<close>

definition format_X :: "nat \<Rightarrow> int \<Rightarrow> string" where
  "format_X width n =
     (if n < 0 then ''-'' @ zfill (width - 1) (digits_of True 16 (nat \<bar>n\<bar>))
      else zfill width (digits_of True 16 (nat n)))"

text \<open>
  \<^verbatim>\<open>str\<close> of a list of strings, as the f-string of the register dump prints it. Each
  element is shown by \<^verbatim>\<open>repr\<close>, which for a string without quotes, backslashes or
  control characters (all that \<^verbatim>\<open>hex\<close> produces) is the string between single quotes.
\<close>

definition repr_str :: "string \<Rightarrow> string" where
  "repr_str s = sq @ s @ sq"

fun join :: "string \<Rightarrow> string list \<Rightarrow> string" where
  "join sep [] = []"
| "join sep [x] = x"
| "join sep (x # y # ys) = x @ sep @ join sep (y # ys)"

definition str_list :: "string list \<Rightarrow> string" where
  "str_list xs = ''['' @ join '', '' (map repr_str xs) @ '']''"

text \<open>
  \<^verbatim>\<open>str.lower\<close> on ASCII text: the letters A to Z move to a to z. (Beyond ASCII
  Python lowers other letters as well, which this leaves alone. The script lowers its
  input only to compare it with the letter q, and Q and q are the only characters that
  Python lowers to q.)
\<close>

definition lower_char :: "char \<Rightarrow> char" where
  "lower_char c =
     (if 65 \<le> (of_char c :: nat) \<and> (of_char c :: nat) \<le> 90
      then char_of ((of_char c :: nat) + 32) else c)"

definition lower :: "string \<Rightarrow> string" where
  "lower s = map lower_char s"

text \<open>
  The first of the byte sequences \<open>seqs\<close> with which the text \<open>s\<close> begins, if there is
  one.
\<close>

definition leading :: "string list \<Rightarrow> string \<Rightarrow> string option" where
  "leading seqs s = find (\<lambda>p. p \<noteq> [] \<and> prefix p s) seqs"

text \<open>
  The characters for which \<^verbatim>\<open>str.isspace\<close> holds, which \<^verbatim>\<open>str.strip\<close> removes from
  both ends: U+0009 to U+000D, U+001C to U+0020, U+0085, U+00A0, U+1680, U+2000 to
  U+200A, U+2028, U+2029, U+202F, U+205F and U+3000.
\<close>

definition whitespace :: "string list" where
  "whitespace =
     [[CHR 0x09], [CHR 0x0A], [CHR 0x0B], [CHR 0x0C], [CHR 0x0D], [CHR 0x1C], [CHR 0x1D],
      [CHR 0x1E], [CHR 0x1F], [CHR 0x20], [CHR 0xC2, CHR 0x85], [CHR 0xC2, CHR 0xA0],
      [CHR 0xE1, CHR 0x9A, CHR 0x80], [CHR 0xE2, CHR 0x80, CHR 0x80],
      [CHR 0xE2, CHR 0x80, CHR 0x81], [CHR 0xE2, CHR 0x80, CHR 0x82],
      [CHR 0xE2, CHR 0x80, CHR 0x83], [CHR 0xE2, CHR 0x80, CHR 0x84],
      [CHR 0xE2, CHR 0x80, CHR 0x85], [CHR 0xE2, CHR 0x80, CHR 0x86],
      [CHR 0xE2, CHR 0x80, CHR 0x87], [CHR 0xE2, CHR 0x80, CHR 0x88],
      [CHR 0xE2, CHR 0x80, CHR 0x89], [CHR 0xE2, CHR 0x80, CHR 0x8A],
      [CHR 0xE2, CHR 0x80, CHR 0xA8], [CHR 0xE2, CHR 0x80, CHR 0xA9],
      [CHR 0xE2, CHR 0x80, CHR 0xAF], [CHR 0xE2, CHR 0x81, CHR 0x9F],
      [CHR 0xE3, CHR 0x80, CHR 0x80]]"

function lstrip_of :: "string list \<Rightarrow> string \<Rightarrow> string" where
  "lstrip_of seqs s =
     (case leading seqs s of
        None \<Rightarrow> s
      | Some p \<Rightarrow> lstrip_of seqs (drop (length p) s))"
  by pat_completeness auto
termination
proof (relation "measure (\<lambda>(seqs, s). length s)")
  show "wf (measure (\<lambda>(seqs, s). length s))"
    by simp
next
  fix seqs :: "string list" and s p :: string
  assume "leading seqs s = Some p"
  then have "p \<noteq> []" and "prefix p s"
    by (auto simp: leading_def find_Some_iff)
  then have "length (drop (length p) s) < length s"
    by (auto simp: prefix_def)
  then show "((seqs, drop (length p) s), (seqs, s)) \<in> measure (\<lambda>(seqs, s). length s)"
    by simp
qed

declare lstrip_of.simps [simp del]

definition strip :: "string \<Rightarrow> string" where
  "strip s = rev (lstrip_of (map rev whitespace) (rev (lstrip_of whitespace s)))"

text \<open>\<^verbatim>\<open>s.split(c)\<close> for a separator of one character; the result is never empty.\<close>

fun split_on :: "char \<Rightarrow> string \<Rightarrow> string list" where
  "split_on c [] = [[]]"
| "split_on c (x # xs) =
     (if x = c then [] # split_on c xs
      else (case split_on c xs of l # ls \<Rightarrow> (x # l) # ls | [] \<Rightarrow> [[x]]))"

text \<open>\<^verbatim>\<open>s.split(c, 1)\<close> where \<^verbatim>\<open>c in s\<close>: the text before and after the first \<^verbatim>\<open>c\<close>.\<close>

definition split_first :: "char \<Rightarrow> string \<Rightarrow> string \<times> string" where
  "split_first c s = (takeWhile (\<lambda>x. x \<noteq> c) s, drop 1 (dropWhile (\<lambda>x. x \<noteq> c) s))"

text \<open>
  Cutting a text into lines at the separators \<open>seps\<close>; \<open>cur\<close> is the line read so far.
  No empty last line is produced.
\<close>

function split_lines :: "string list \<Rightarrow> string \<Rightarrow> string \<Rightarrow> string list" where
  "split_lines seps cur s =
     (if s = [] then (if cur = [] then [] else [cur])
      else case leading seps s of
             Some p \<Rightarrow> cur # split_lines seps [] (drop (length p) s)
           | None \<Rightarrow> split_lines seps (cur @ [hd s]) (tl s))"
  by pat_completeness auto
termination
proof (relation "measure (\<lambda>(seps, cur, s). length s)")
  show "wf (measure (\<lambda>(seps, cur, s). length s))"
    by simp
next
  fix seps :: "string list" and cur s :: string
  assume "s \<noteq> []"
  then show "((seps, cur @ [hd s], tl s), (seps, cur, s)) \<in> measure (\<lambda>(seps, cur, s). length s)"
    by (cases s) simp_all
next
  fix seps :: "string list" and cur s p :: string
  assume "leading seps s = Some p"
  then have "p \<noteq> []" and "prefix p s"
    by (auto simp: leading_def find_Some_iff)
  then have "length (drop (length p) s) < length s"
    by (auto simp: prefix_def)
  then show "((seps, [], drop (length p) s), (seps, cur, s)) \<in> measure (\<lambda>(seps, cur, s). length s)"
    by simp
qed

declare split_lines.simps [simp del]

text \<open>
  \<^verbatim>\<open>str.splitlines\<close> cuts at the pair CR LF (one cut), at line feed, vertical tab, form
  feed, carriage return, the separators U+001C to U+001E, U+0085, U+2028 and U+2029.
\<close>

definition linebreaks :: "string list" where
  "linebreaks =
     [[CHR 0x0D, CHR 0x0A], [CHR 0x0A], [CHR 0x0B], [CHR 0x0C], [CHR 0x0D], [CHR 0x1C],
      [CHR 0x1D], [CHR 0x1E], [CHR 0xC2, CHR 0x85], [CHR 0xE2, CHR 0x80, CHR 0xA8],
      [CHR 0xE2, CHR 0x80, CHR 0xA9]]"

definition splitlines :: "string \<Rightarrow> string list" where
  "splitlines s = split_lines linebreaks [] s"

text \<open>
  The lines that iterating over a file opened in text mode gives: a line ends at CR LF,
  at LF or at CR. (Python leaves a line feed at the end of each line; the script strips
  every line before it uses it.)
\<close>

definition newlines :: "string list" where
  "newlines = [[CHR 0x0D, CHR 0x0A], [CHR 0x0A], [CHR 0x0D]]"

definition file_lines :: "string \<Rightarrow> string list" where
  "file_lines text = split_lines newlines [] text"

text \<open>
  The lines of a text written to standard output, \<^verbatim>\<open>text.split("\n")\<close>.
\<close>

definition lines_of :: "string \<Rightarrow> string list" where
  "lines_of s = split_on (CHR 0x0A) s"

subsection \<open>Floating point\<close>

text \<open>
  A Python float is an IEEE 754 binary64 number. Its finite values are rationals, and
  every arithmetic operation returns the exact result rounded to the nearest
  representable value, ties to the even significand. \<open>b64\<close> is that rounding: \<open>e\<close> is
  the exponent of the binade of \<open>x\<close> (not below the subnormal exponent -1022) and the
  result is a multiple of \<open>2 ^ (e - 52)\<close>. All values of this program are below 128 in
  magnitude, so the infinities, NaN and the sign of zero do not arise and are not
  modelled.
\<close>

function bit_length :: "int \<Rightarrow> nat" where
  "bit_length n = (if n \<le> 0 then 0 else Suc (bit_length (n div 2)))"
  by pat_completeness auto
termination
  by (relation "measure nat") auto

declare bit_length.simps [simp del]

definition pow2 :: "int \<Rightarrow> rat" where
  "pow2 e = (if 0 \<le> e then 2 ^ nat e else 1 / 2 ^ nat (- e))"

definition round_half_even :: "rat \<Rightarrow> int" where
  "round_half_even x =
     (let f = \<lfloor>x\<rfloor>; d = x - of_int f
      in if d < 1 / 2 then f else if 1 / 2 < d then f + 1
         else if even f then f else f + 1)"

text \<open>For \<open>0 < x\<close>, the integer \<open>e\<close> with \<open>2 ^ e \<le> x < 2 ^ (e + 1)\<close>.\<close>

definition ilog2 :: "rat \<Rightarrow> int" where
  "ilog2 x =
     (if 1 \<le> x then int (bit_length \<lfloor>x\<rfloor>) - 1
      else - int (bit_length (\<lceil>1 / x\<rceil> - 1)))"

definition b64 :: "rat \<Rightarrow> rat" where
  "b64 x =
     (if x = 0 then 0
      else let e = max (ilog2 \<bar>x\<bar>) (- 1022); u = pow2 (e - 52)
           in sgn x * of_int (round_half_even (\<bar>x\<bar> / u)) * u)"

definition fadd :: "rat \<Rightarrow> rat \<Rightarrow> rat" where
  "fadd a b = b64 (a + b)"

definition fsub :: "rat \<Rightarrow> rat \<Rightarrow> rat" where
  "fsub a b = b64 (a - b)"

definition fmul :: "rat \<Rightarrow> rat \<Rightarrow> rat" where
  "fmul a b = b64 (a * b)"

definition fdiv :: "rat \<Rightarrow> rat \<Rightarrow> rat" where
  "fdiv a b = b64 (a / b)"

text \<open>\<^verbatim>\<open>float(n)\<close> of an integer, and \<^verbatim>\<open>int(x)\<close> of a float (towards zero).\<close>

definition float_of_int :: "int \<Rightarrow> rat" where
  "float_of_int n = b64 (of_int n)"

definition trunc_int :: "rat \<Rightarrow> int" where
  "trunc_int x = (if 0 \<le> x then \<lfloor>x\<rfloor> else \<lceil>x\<rceil>)"

text \<open>
  The format specification \<^verbatim>\<open>:.2f\<close>: the decimal with two digits after the point
  nearest to the exact value of the float, ties to even.
\<close>

definition format_2f :: "rat \<Rightarrow> string" where
  "format_2f x =
     (let n = nat (round_half_even (\<bar>x\<bar> * 100))
      in (if x < 0 then ''-'' else []) @ digits_of False 10 (n div 100) @ ''.''
         @ zfill 2 (digits_of False 10 (n mod 100)))"

section \<open>The process: random source, standard output, files\<close>

text \<open>
  The state the script works on. \<open>rng\<close> is the random source: the result of the
  \<open>n\<close>-th call of a function of the module \<^verbatim>\<open>random\<close> is computed from \<open>rng n\<close>, and
  \<open>pos\<close> counts the calls made so far, so a test can fix every outcome. \<open>out\<close> is the
  text written to standard output and \<open>files\<close> the paths that exist.
\<close>

record world =
  rng :: "nat \<Rightarrow> nat"
  pos :: nat
  out :: string
  files :: "string set"

definition py_print :: "string \<Rightarrow> world \<Rightarrow> world" where
  "py_print s w = w\<lparr>out := out w @ s @ nl\<rparr>"

text \<open>\<^verbatim>\<open>sys.stdout.write(s)\<close>, and \<^verbatim>\<open>print(s, end="")\<close>.\<close>

definition stdout_write :: "string \<Rightarrow> world \<Rightarrow> world" where
  "stdout_write s w = w\<lparr>out := out w @ s\<rparr>"

text \<open>A pause changes nothing that the model observes.\<close>

definition time_sleep :: "rat \<Rightarrow> world \<Rightarrow> world" where
  "time_sleep seconds w = w"

definition draw :: "world \<Rightarrow> nat \<times> world" where
  "draw w = (rng w (pos w), w\<lparr>pos := Suc (pos w)\<rparr>)"

text \<open>
  \<^verbatim>\<open>random.uniform(0.5, 1.5)\<close> is only ever the argument of \<^verbatim>\<open>time.sleep\<close>: the call
  uses up one result of the random source.
\<close>

definition sleep_random_uniform :: "world \<Rightarrow> world" where
  "sleep_random_uniform w = snd (draw w)"

text \<open>\<^verbatim>\<open>random.choice(xs)\<close>; both calls of the script pass a list of two elements.\<close>

definition random_choice :: "'a list \<Rightarrow> world \<Rightarrow> 'a \<times> world" where
  "random_choice xs w = (let (r, w') = draw w in (xs ! (r mod length xs), w'))"

definition random_getrandbits :: "nat \<Rightarrow> world \<Rightarrow> int \<times> world" where
  "random_getrandbits k w = (let (r, w') = draw w in (int (r mod 2 ^ k), w'))"

text \<open>\<^verbatim>\<open>random.randint(a, b)\<close> with \<open>a \<le> b\<close>: an integer from \<open>a\<close> to \<open>b\<close>, both included.\<close>

definition random_randint :: "int \<Rightarrow> int \<Rightarrow> world \<Rightarrow> int \<times> world" where
  "random_randint a b w = (let (r, w') = draw w in (a + int (r mod nat (b - a + 1)), w'))"

text \<open>The generator \<^verbatim>\<open>random.getrandbits(k) for _ in range(n)\<close>, run to its end.\<close>

fun getrandbits_seq :: "nat \<Rightarrow> nat \<Rightarrow> world \<Rightarrow> int list \<times> world" where
  "getrandbits_seq k 0 w = ([], w)"
| "getrandbits_seq k (Suc n) w =
     (let (x, w1) = random_getrandbits k w;
          (xs, w2) = getrandbits_seq k n w1
      in (x # xs, w2))"

text \<open>\<^verbatim>\<open>bytearray(xs)\<close> raises ValueError unless every element is in \<^verbatim>\<open>range(256)\<close>.\<close>

definition bytearray :: "int list \<Rightarrow> exn + int list" where
  "bytearray xs = (if list_all (\<lambda>x. 0 \<le> x \<and> x < 256) xs then Inr xs else Inl ValueError)"

text \<open>\<^verbatim>\<open>bytes(payload)\<close>: an immutable copy with the same elements.\<close>

definition bytes :: "int list \<Rightarrow> int list" where
  "bytes xs = xs"

section \<open>Configuration (lines 12 to 44)\<close>

record config =
  TARGET_DEVICE :: string
  BITSTREAM_FILE :: string
  OUTPUT_DIR :: string

definition PROGRAM_DURATION :: rat where
  "PROGRAM_DURATION = 25"

definition PROGRESS_BAR_WIDTH :: nat where
  "PROGRESS_BAR_WIDTH = 50"

text \<open>
  What the top of the script reads: the text of \<^verbatim>\<open>./prog_config.txt\<close> when the file
  exists, and the entries of \<^verbatim>\<open>./bit_file\<close> (name and modification time) in the order
  in which a directory scan lists them.
\<close>

record disk =
  config_text :: "string option"
  bit_dir :: "(string \<times> nat) list"

text \<open>The names that the import statements of lines 1 to 5 bind.\<close>

definition imported :: "string list" where
  "imported = [''time'', ''os'', ''sys'', ''random'', ''subprocess'']"

text \<open>Reading a module by its name raises NameError unless an import has bound it.\<close>

definition module_ref :: "string \<Rightarrow> exn + string" where
  "module_ref name = (if name \<in> set imported then Inr name else Inl (NameError name))"

text \<open>Lines 21 to 26: every line with an equals sign sets one key.\<close>

fun parse_config :: "string list \<Rightarrow> (string \<rightharpoonup> string) \<Rightarrow> (string \<rightharpoonup> string)" where
  "parse_config [] config = config"
| "parse_config (line # rest) config =
     (if CHR ''='' \<in> set line
      then (let (key, val) = split_first (CHR ''='') (strip line)
            in parse_config rest (config(strip key \<mapsto> strip val)))
      else parse_config rest config)"

text \<open>
  \<^verbatim>\<open>glob.glob(os.path.join(BIT_DIR, "*.bit"))\<close>: the paths of the entries whose name
  ends in \<^verbatim>\<open>.bit\<close> and does not start with a dot.
\<close>

definition glob_bit :: "(string \<times> nat) list \<Rightarrow> (string \<times> nat) list" where
  "glob_bit entries =
     map (\<lambda>(name, mtime). (''./bit_file/'' @ name, mtime))
       (filter (\<lambda>(name, mtime). suffix ''.bit'' name \<and> \<not> prefix ''.'' name) entries)"

text \<open>
  Lines 17 to 41. Line 35 reads the name \<^verbatim>\<open>glob\<close> before anything is scanned;
  \<^verbatim>\<open>sorted\<close> with a key is a stable sort.
\<close>

definition startup :: "disk \<Rightarrow> exn + config" where
  "startup d =
     (case config_text d of
        None \<Rightarrow> Inl (SystemExitMsg
          ''Error: Missing prog_config.txt. Please create it in the project root.'')
      | Some text \<Rightarrow>
          (let config = parse_config (file_lines text) Map.empty in
           case config ''TARGET_DEVICE'' of
             None \<Rightarrow> Inl (SystemExitMsg ''Error: TARGET_DEVICE not defined in prog_config.txt.'')
           | Some target \<Rightarrow>
               if target = []
               then Inl (SystemExitMsg ''Error: TARGET_DEVICE not defined in prog_config.txt.'')
               else
                 (case module_ref ''glob'' of
                    Inl e \<Rightarrow> Inl e
                  | Inr _ \<Rightarrow>
                      (let bit_files = sort_key snd (glob_bit (bit_dir d)) in
                       if bit_files = []
                       then Inl (SystemExitMsg
                         ''Error: No .bit file found in ./bit_file/ directory.'')
                       else Inr \<lparr>TARGET_DEVICE = target,
                                 BITSTREAM_FILE = fst (last bit_files),
                                 OUTPUT_DIR = ''./bit_file''\<rparr>))))"

section \<open>Utility functions (lines 49 to 72)\<close>

text \<open>One frame of the progress bar, lines 52 to 55.\<close>

definition progress_frame :: "string \<Rightarrow> nat \<Rightarrow> string" where
  "progress_frame message i =
     (let percentage =
            trunc_int (fmul (fdiv (float_of_int (int i)) (float_of_int (int PROGRESS_BAR_WIDTH)))
                            (float_of_int 100));
          filled_part = concat (replicate i full_block);
          empty_part = replicate (PROGRESS_BAR_WIDTH - i) CHR '' ''
      in cr @ message @ '' ['' @ filled_part @ empty_part @ ''] '' @ str_int percentage @ ''%'')"

definition progress_bar :: "rat \<Rightarrow> string \<Rightarrow> world \<Rightarrow> world" where
  "progress_bar duration message w =
     stdout_write nl
       (foldl (\<lambda>w i. time_sleep (duration / of_nat PROGRESS_BAR_WIDTH)
                        (stdout_write (progress_frame message i) w))
              w [0..<PROGRESS_BAR_WIDTH + 1])"

definition simulate_xilinx_command :: "string \<Rightarrow> string \<Rightarrow> string \<Rightarrow> world \<Rightarrow> bool \<times> world" where
  "simulate_xilinx_command command success_msg error_msg w =
     (let w = sleep_random_uniform w;
          (ok, w) = random_choice [True, False] w
      in if ok
         then (True, py_print (''[SUCCESS] '' @ success_msg) (py_print (''[SIM] '' @ command) w))
         else (False, py_print (''[ERROR] '' @ error_msg) (py_print (''[SIM] '' @ command) w)))"

section \<open>Programming logic (lines 77 to 136)\<close>

definition rule58 :: string where
  "rule58 = replicate 58 CHR ''=''"

definition program_device :: "config \<Rightarrow> world \<Rightarrow> (exn + unit) \<times> world" where
  "program_device cfg w =
     (let w = py_print rule58 w;
          w = py_print ''  Alveo U50 Bitstream Programming (Xilinx Tools)'' w;
          w = py_print rule58 w;
          w = py_print (nl @ ''[STEP 1/5] Verifying XRT environment...'') w;
          (ok, w) = simulate_xilinx_command
                      (''xbflash --device '' @ TARGET_DEVICE cfg @ '' --init'')
                      ''Device initialized successfully.''
                      ''Initialization failed. Check JTAG connection.'' w
      in if \<not> ok then (Inl (SystemExit 1), w) else
     (let w = time_sleep 2 w;
          w = py_print (''[STEP 2/5] Verifying build output directory ''
                        @ sq @ ''{OUTPUT_DIR}'' @ sq @ ''...'') w
      in if BITSTREAM_FILE cfg \<notin> files w
         then (Inl (SystemExit 1),
               py_print (''[ERROR] Bitstream '' @ sq @ BITSTREAM_FILE cfg @ sq
                         @ '' not found. Generate with Vivado first.'') w)
         else
     (let (ok, w) = simulate_xilinx_command
                      (''xbtutil --validate --bitstream '' @ BITSTREAM_FILE cfg)
                      ''Bitstream integrity check passed.''
                      ''Validation failed. Check bitstream syntax.'' w
      in if \<not> ok then (Inl (SystemExit 1), w) else
     (let w = time_sleep 1 w;
          w = py_print (nl @ ''[STEP 3/5] Initializing device with xbflash...'') w;
          (ok, w) = simulate_xilinx_command
                      (''xbflash --device '' @ TARGET_DEVICE cfg @ '' --init'')
                      ''Device initialized successfully.''
                      ''Initialization failed. Check JTAG connection.'' w
      in if \<not> ok then (Inl (SystemExit 1), w) else
     (let w = time_sleep 2 w;
          w = py_print (nl @ ''[STEP 4/5] Programming bitstream to Alveo U50...'') w;
          (ok, w) = simulate_xilinx_command
                      (''xbflash --program --bitstream '' @ BITSTREAM_FILE cfg
                       @ '' --device '' @ TARGET_DEVICE cfg)
                      ''Programming command sent to hardware.''
                      ''Programming failed. Verify device ID.'' w
      in if \<not> ok then (Inl (SystemExit 1), w) else
     (let w = progress_bar PROGRAM_DURATION ''Transferring bitstream via xbflash...'' w;
          w = time_sleep 1 w;
          w = py_print (nl @ ''[STEP 5/5] Verifying programming with xbtutil...'') w;
          (ok, w) = simulate_xilinx_command
                      (''xbtutil --verify --bitstream '' @ BITSTREAM_FILE cfg)
                      ''Verification successful. Device configured.''
                      ''Verification failed. Re-run programming.'' w
      in if ok
         then (Inr (),
               py_print rule58
                 (py_print ''  Programming Completed Successfully.''
                    (py_print (nl @ rule58) w)))
         else (Inl (SystemExit 1),
               py_print ''[ERROR] Programming verification failed.'' w)))))))"

section \<open>Device identity (lines 138 to 175)\<close>

text \<open>\<^verbatim>\<open>os.system\<close> runs the terminal's own command; Python writes nothing itself.\<close>

definition clear_screen :: "world \<Rightarrow> world" where
  "clear_screen w = w"

record devinfo =
  device :: string
  firmware :: string
  connection :: string
  serial :: string

text \<open>
  What running \<^verbatim>\<open>xbutil examine\<close> can come to: the tool is not there, its output is
  not text in the expected encoding, or it ends with a return code and an output.
\<close>

datatype xbutil = Missing | Undecodable | Exited int string

text \<open>\<^verbatim>\<open>subprocess.run(..., check=True)\<close>, reduced to the captured standard output.\<close>

definition subprocess_run :: "xbutil \<Rightarrow> exn + string" where
  "subprocess_run q =
     (case q of
        Missing \<Rightarrow> Inl FileNotFoundError
      | Undecodable \<Rightarrow> Inl UnicodeDecodeError
      | Exited returncode stdout \<Rightarrow>
          if returncode \<noteq> 0 then Inl (CalledProcessError returncode) else Inr stdout)"

text \<open>\<^verbatim>\<open>line.split(":")[-1].strip()\<close>\<close>

definition last_field :: "string \<Rightarrow> string" where
  "last_field line = strip (last (split_on (CHR '':'') line))"

definition fallback :: devinfo where
  "fallback = \<lparr>device = ''xilinx_u50_gen3x16_xdma_201920_3'',
               firmware = ''alveo_u50_top.bit'',
               connection = ''JTAG-over-PCIe'',
               serial = ''21340D8XYZ123''\<rparr>"

text \<open>The body of the \<^verbatim>\<open>try\<close>, lines 143 to 158.\<close>

definition get_device_info_try :: "xbutil \<Rightarrow> exn + devinfo" where
  "get_device_info_try q =
     (case subprocess_run q of
        Inl e \<Rightarrow> Inl e
      | Inr stdout \<Rightarrow>
          (let lines = splitlines stdout;
               dev_line = find (\<lambda>l. sublist ''Device'' l) lines;
               sn_line = find (\<lambda>l. sublist ''S/N'' l) lines
           in Inr \<lparr>device = (case dev_line of
                               Some l \<Rightarrow> if l \<noteq> [] then last_field l
                                         else ''xilinx_u50_gen3x16_xdma_201920_3''
                             | None \<Rightarrow> ''xilinx_u50_gen3x16_xdma_201920_3''),
                   firmware = ''alveo_u50_top.bit'',
                   connection = ''JTAG-over-PCIe'',
                   serial = (case sn_line of
                               Some l \<Rightarrow> if l \<noteq> [] then last_field l else ''21340D8XYZ123''
                             | None \<Rightarrow> ''21340D8XYZ123'')\<rparr>))"

definition get_device_info :: "xbutil \<Rightarrow> exn + devinfo" where
  "get_device_info q =
     (case get_device_info_try q of
        Inr info \<Rightarrow> Inr info
      | Inl e \<Rightarrow>
          if is_Exception e
          then Inr \<lparr>device = ''xilinx_u50_gen3x16_xdma_201920_3'',
                    firmware = ''alveo_u50_top.bit'',
                    connection = ''JTAG-over-PCIe'',
                    serial = ''21340D8XYZ123''\<rparr>
          else Inl e)"

definition rule57 :: string where
  "rule57 = replicate 57 CHR ''=''"

definition print_header :: "devinfo \<Rightarrow> world \<Rightarrow> world" where
  "print_header info w =
     (let w = py_print rule57 w;
          w = py_print ''==        Alveo U50 Live Diagnostics Interface         =='' w;
          w = py_print rule57 w;
          w = py_print (''Target Device: '' @ device info) w;
          w = py_print (''Firmware:      '' @ firmware info) w;
          w = py_print (''Connection:    '' @ connection info) w;
          w = py_print (''Serial No.:    '' @ serial info) w
      in py_print nl w)"

text \<open>
  \<^verbatim>\<open>main_menu\<close> up to the moment it waits for the line: the six prints and the prompt
  of \<^verbatim>\<open>input\<close>. The line read is taken from the pending input by the loop below.
\<close>

definition main_menu :: "world \<Rightarrow> world" where
  "main_menu w =
     (let w = py_print ''Select a diagnostic command:'' w;
          w = py_print ''  [1] Check HBM (High Bandwidth Memory) Status'' w;
          w = py_print ''  [2] Run PCIe Link Self-Test'' w;
          w = py_print ''  [3] Read On-Chip Temperature Sensors'' w;
          w = py_print ''  [4] Send test data to processing kernel'' w;
          w = py_print ''  [q] Quit'' w
      in stdout_write ''>> '' w)"

section \<open>Diagnostic operations (lines 187 to 249)\<close>

subsection \<open>HBM status\<close>

definition raw_status :: "world \<Rightarrow> int \<times> world" where
  "raw_status w = random_choice [0x0001, 0x0000] w"

definition reg_dump :: "int \<Rightarrow> string list" where
  "reg_dump raw = map (\<lambda>i. hex (push_bit i raw AND 0xFFFF)) [0..<4]"

definition calibrated :: "int \<Rightarrow> bool" where
  "calibrated raw = (raw AND 0x1 \<noteq> 0)"

definition check_hbm_status :: "world \<Rightarrow> (exn + unit) \<times> world" where
  "check_hbm_status w =
     (let w = py_print (nl @ ''[CMD] Querying HBM Controller (AXI Addr: 0x10000)...'') w;
          w = time_sleep (8 / 10) w;
          (raw, w) = raw_status w;
          w = py_print (''[AXI-RD] Register dump: '' @ str_list (reg_dump raw)) w;
          w = py_print (''[RECV] HBM Status Register: 0x'' @ format_X 4 raw @ '' (''
                        @ (if calibrated raw then ''Calibrated, OK'' else ''Idle'') @ '')'') w;
          w = py_print (if calibrated raw then ''[INFO] HBM Memory appears to be stable.''
                        else ''[WARN] HBM not initialized!'') w
      in (Inr (), w))"

subsection \<open>PCIe loopback test\<close>

definition pcie_progress :: "world \<Rightarrow> world" where
  "pcie_progress w =
     foldl (\<lambda>w i. time_sleep (2 / 10)
                     (stdout_write (cr @ ''[INFO] Progress: '' @ str_int (int i * 10) @ ''%...'') w))
           w [0..<11]"

definition run_pcie_test :: "world \<Rightarrow> (exn + unit) \<times> world" where
  "run_pcie_test w =
     (let w = py_print (nl @ ''[CMD] Initiating PCIe Gen3 x16 loopback test...'') w;
          w = time_sleep (5 / 10) w;
          (xs, w) = getrandbits_seq 8 256 w
      in case bytearray xs of
           Inl e \<Rightarrow> (Inl e, w)
         | Inr payload \<Rightarrow>
     (let checksum_tx = sum_list payload AND 0xFFFF;
          w = py_print ''[INFO] Sending 1MB test payload...'' w;
          w = pcie_progress w;
          payload_rx = bytes payload;
          checksum_rx = sum_list payload_rx AND 0xFFFF;
          w = py_print (nl @ ''[INFO] Payload received, verifying...'') w;
          w = time_sleep (5 / 10) w
      in if checksum_tx = checksum_rx
         then (Inr (), py_print (''[RECV] PCIe Link Test: PASS (Integrity OK, checksum=0x''
                                 @ format_X 4 checksum_rx @ '')'') w)
         else (Inr (), py_print ''[FAIL] Data mismatch detected in loopback test.'' w)))"

subsection \<open>Temperature\<close>

definition adc_fpga :: "world \<Rightarrow> int \<times> world" where
  "adc_fpga w = (let (j, w) = random_randint (- 16) 16 w in (0x3E80 + j, w))"

definition adc_hbm :: "world \<Rightarrow> int \<times> world" where
  "adc_hbm w = (let (j, w) = random_randint (- 8) 8 w in (0x3B60 + j, w))"

definition temp_fpga :: "int \<Rightarrow> rat" where
  "temp_fpga adc = fadd (b64 (625 / 10)) (fmul (float_of_int (adc - 0x3E80)) (b64 (1 / 100)))"

definition temp_hbm :: "int \<Rightarrow> rat" where
  "temp_hbm adc = fadd (b64 (582 / 10)) (fmul (float_of_int (adc - 0x3B60)) (b64 (1 / 100)))"

definition read_temp :: "world \<Rightarrow> (exn + unit) \<times> world" where
  "read_temp w =
     (let w = py_print (nl @ ''[CMD] Reading thermal sensor array...'') w;
          w = time_sleep (6 / 10) w;
          (a_fpga, w) = adc_fpga w;
          (a_hbm, w) = adc_hbm w;
          w = py_print (''[AXI-RD] FPGA ADC raw = 0x'' @ format_X 0 a_fpga) w;
          w = py_print (''[AXI-RD] HBM  ADC raw = 0x'' @ format_X 0 a_hbm) w;
          w = py_print (''[RECV] FPGA Die Temperature: '' @ format_2f (temp_fpga a_fpga) @ '' C'') w;
          w = py_print (''[RECV] HBM Stack Temperature: '' @ format_2f (temp_hbm a_hbm) @ '' C'') w
      in (Inr (), w))"

subsection \<open>Data send\<close>

definition send_data :: "world \<Rightarrow> (exn + unit) \<times> world" where
  "send_data w =
     (let w = py_print (nl @ ''[CMD] Allocating buffer and sending 4KB data to Kernel_0...'') w;
          w = time_sleep (5 / 10) w;
          (xs, w) = getrandbits_seq 8 4096 w
      in case bytearray xs of
           Inl e \<Rightarrow> (Inl e, w)
         | Inr buf \<Rightarrow>
     (let checksum = sum_list buf AND 0xFFFFFFFF;
          w = time_sleep 1 w;
          (j, w) = random_randint (- 10) 10 w;
          latency = 150 + j;
          w = py_print (''[INFO] Data transfer complete. Buffer checksum=0x''
                        @ format_X 8 checksum) w;
          w = py_print (''[RECV] Kernel_0 returned status OK. Latency: ''
                        @ str_int latency @ '' us.'') w
      in (Inr (), w)))"

section \<open>The menu loop (lines 250 to 268)\<close>

text \<open>
  Lines 258 to 267, the chain of comparisons on the line read. The result says whether
  the loop is left by \<^verbatim>\<open>break\<close>; an exception of an operation is passed on.
\<close>

definition after_operation :: "(exn + unit) \<times> world \<Rightarrow> (exn + bool) \<times> world" where
  "after_operation r = (case r of (Inl e, w) \<Rightarrow> (Inl e, w) | (Inr _, w) \<Rightarrow> (Inr False, w))"

definition menu_dispatch :: "string \<Rightarrow> world \<Rightarrow> (exn + bool) \<times> world" where
  "menu_dispatch choice w =
     (if choice = ''1'' then after_operation (check_hbm_status w)
      else if choice = ''2'' then after_operation (run_pcie_test w)
      else if choice = ''3'' then after_operation (read_temp w)
      else if choice = ''4'' then after_operation (send_data w)
      else if lower choice = ''q''
      then (Inr True, time_sleep 1 (py_print (nl @ ''Disconnecting from device...'') w))
      else (Inr False, py_print (nl @ ''Invalid option.'') w))"

text \<open>
  The loop over the lines that standard input still holds. \<^verbatim>\<open>input\<close> writes its prompt,
  takes the next line, and raises EOFError when there is none.
\<close>

fun menu_loop :: "devinfo \<Rightarrow> string list \<Rightarrow> world \<Rightarrow> (exn + unit) \<times> world" where
  "menu_loop info [] w = (Inl EOFError, main_menu (print_header info (clear_screen w)))"
| "menu_loop info (choice # pending) w =
     (case menu_dispatch choice (main_menu (print_header info (clear_screen w))) of
        (Inl e, w) \<Rightarrow> (Inl e, w)
      | (Inr True, w) \<Rightarrow> (Inr (), w)
      | (Inr False, w) \<Rightarrow>
          (let w = stdout_write (nl @ ''Press [Enter] to return to the menu...'') w
           in case pending of
                [] \<Rightarrow> (Inl EOFError, w)
              | acknowledged # pending \<Rightarrow> menu_loop info pending w))"

text \<open>The script from line 251 on, once the configuration has been read.\<close>

definition main :: "config \<Rightarrow> xbutil \<Rightarrow> string list \<Rightarrow> world \<Rightarrow> (exn + unit) \<times> world" where
  "main cfg q pending w =
     (case program_device cfg (clear_screen w) of
        (Inl e, w) \<Rightarrow> (Inl e, w)
      | (Inr _, w) \<Rightarrow>
          (case get_device_info q of
             Inl e \<Rightarrow> (Inl e, w)
           | Inr info \<Rightarrow> menu_loop info pending w))"

section \<open>Notions used to state the properties\<close>

text \<open>
  Every call of \<open>simulate_xilinx_command\<close> takes two results from the random source:
  the first for the pause, the second for the coin. \<open>coin_flip w i\<close> is the coin that
  the call number \<open>i\<close> (from 0) made by a run of \<open>program_device\<close> from \<open>w\<close> sees;
  \<open>True\<close> is success.
\<close>

definition coin_flip :: "world \<Rightarrow> nat \<Rightarrow> bool" where
  "coin_flip w i = fst (random_choice [True, False] (w\<lparr>pos := pos w + 2 * i + 1\<rparr>))"

text \<open>The last line that a run prints when step \<open>k + 1\<close> fails.\<close>

definition failure_line :: "nat \<Rightarrow> string" where
  "failure_line k =
     [''[ERROR] Initialization failed. Check JTAG connection.'',
      ''[ERROR] Validation failed. Check bitstream syntax.'',
      ''[ERROR] Initialization failed. Check JTAG connection.'',
      ''[ERROR] Programming failed. Verify device ID.'',
      ''[ERROR] Programming verification failed.''] ! k"

text \<open>The text that printing the lines \<open>ls\<close> one after the other writes.\<close>

definition unlines :: "string list \<Rightarrow> string" where
  "unlines ls = concat (map (\<lambda>l. l @ nl) ls)"

text \<open>The status keywords, and the lines that contain one of them.\<close>

definition status_keywords :: "string list" where
  "status_keywords = [''PASS'', ''FAIL'', ''OK'', ''Calibrated'', ''Idle'']"

definition has_keyword :: "string \<Rightarrow> bool" where
  "has_keyword line = list_ex (\<lambda>k. sublist k line) status_keywords"

text \<open>The characters of which the formatted numbers of the script are made.\<close>

definition number_chars :: "char set" where
  "number_chars = set ''-.0123456789ABCDEFabcdef''"

text \<open>
  Two forms of the rounding in which every argument is evaluated before the function
  is unfolded, for computing with numerals; and the ADC codes that the two sensors can
  deliver, with the temperature computed from each.
\<close>

definition round_pick :: "rat \<Rightarrow> int \<Rightarrow> int" where
  "round_pick x f =
     (if x - of_int f < 1 / 2 then f else if 1 / 2 < x - of_int f then f + 1
      else if even f then f else f + 1)"

definition scaled_round :: "rat \<Rightarrow> int \<Rightarrow> rat" where
  "scaled_round x e = of_int (round_half_even (x / pow2 (e - 52))) * pow2 (e - 52)"

definition fpga_codes :: "int list" where
  "fpga_codes =
     [15984, 15985, 15986, 15987, 15988, 15989, 15990, 15991, 15992, 15993, 15994, 15995,
      15996, 15997, 15998, 15999, 16000, 16001, 16002, 16003, 16004, 16005, 16006, 16007,
      16008, 16009, 16010, 16011, 16012, 16013, 16014, 16015, 16016]"

definition fpga_values :: "rat list" where
  "fpga_values =
     [2193393756017787 / 35184372088832, 8774982398954701 / 140737488355328,
      4388194886919127 / 70368744177664, 8777797148721807 / 140737488355328,
      8779204523605361 / 140737488355328, 4390305949244457 / 70368744177664,
      8782019273372467 / 140737488355328, 2195856662064005 / 35184372088832,
      4392417011569787 / 70368744177664, 8786241398023127 / 140737488355328,
      1098456096613335 / 17592186044416, 4394528073895117 / 70368744177664,
      8790463522673787 / 140737488355328, 2197967724389335 / 35184372088832,
      8793278272440893 / 140737488355328, 8794685647324447 / 140737488355328, 125 / 2,
      8797500397091553 / 140737488355328, 8798907771975107 / 140737488355328,
      2200078786714665 / 35184372088832, 8801722521742213 / 140737488355328,
      4401564948312883 / 70368744177664, 1100567158938665 / 17592186044416,
      8805944646392873 / 140737488355328, 4403676010638213 / 70368744177664,
      2202189849039995 / 35184372088832, 8810166771043533 / 140737488355328,
      4405787072963543 / 70368744177664, 8812981520810639 / 140737488355328,
      8814388895694193 / 140737488355328, 4407898135288873 / 70368744177664,
      8817203645461299 / 140737488355328, 2204652755086213 / 35184372088832]"

definition hbm_codes :: "int list" where
  "hbm_codes =
     [15192, 15193, 15194, 15195, 15196, 15197, 15198, 15199, 15200, 15201, 15202, 15203,
      15204, 15205, 15206, 15207, 15208]"

definition hbm_values :: "rat list" where
  "hbm_values =
     [511228926450729 / 8796093022208, 8181070198095217 / 140737488355328,
      4091238786489385 / 70368744177664, 2045971236965581 / 35184372088832,
      8185292322745877 / 140737488355328, 4093349848814715 / 70368744177664,
      8188107072512983 / 140737488355328, 8189514447396537 / 140737488355328,
      4095460911140045 / 70368744177664, 8192329197163643 / 140737488355328,
      8193736572047197 / 140737488355328, 4097571973465375 / 70368744177664,
      8196551321814303 / 140737488355328, 233 / 4, 4099683035790705 / 70368744177664,
      8200773446464963 / 140737488355328, 2050545205337129 / 35184372088832]"

text \<open>The line that the eleven progress messages of the PCIe test make up.\<close>

definition pcie_progress_line :: string where
  "pcie_progress_line =
     concat (map (\<lambda>p. cr @ ''[INFO] Progress: '' @ p @ ''%...'')
       [''0'', ''10'', ''20'', ''30'', ''40'', ''50'', ''60'', ''70'', ''80'', ''90'', ''100''])"

text \<open>A configuration, a starting state and a disk for concrete runs.\<close>

definition demo_cfg :: config where
  "demo_cfg = \<lparr>TARGET_DEVICE = ''xilinx_u50_gen3x16_xdma_201920_3'',
                BITSTREAM_FILE = ''./bit_file/alveo_u50_top.bit'',
                OUTPUT_DIR = ''./bit_file''\<rparr>"

definition demo_world :: "(nat \<Rightarrow> nat) \<Rightarrow> string set \<Rightarrow> world" where
  "demo_world r fs = \<lparr>rng = r, pos = 0, out = [], files = fs\<rparr>"

definition demo_disk :: disk where
  "demo_disk = \<lparr>config_text = Some (''TARGET_DEVICE=xilinx_u50_gen3x16_xdma_201920_3'' @ nl),
                 bit_dir = [(''old.bit'', 1), (''new.bit'', 2)]\<rparr>"

section \<open>Basic facts about the state\<close>

lemma py_print_sel [simp]:
  "rng (py_print s w) = rng w" "pos (py_print s w) = pos w" "files (py_print s w) = files w"
  by (simp_all add: py_print_def)

lemma stdout_write_sel [simp]:
  "rng (stdout_write s w) = rng w" "pos (stdout_write s w) = pos w"
  "files (stdout_write s w) = files w"
  by (simp_all add: stdout_write_def)

lemma time_sleep_id [simp]: "time_sleep d w = w"
  by (simp add: time_sleep_def)

lemma py_print_ends: "t = s @ nl \<Longrightarrow> suffix t (out (py_print s w))"
  by (simp add: py_print_def suffix_def)

lemma foldl_stdout_write:
  "foldl (\<lambda>w i. stdout_write (f i) w) w xs = w\<lparr>out := out w @ concat (map f xs)\<rparr>"
  by (induction xs arbitrary: w) (simp_all add: stdout_write_def)

lemma progress_bar_sel [simp]:
  "rng (progress_bar d m w) = rng w" "pos (progress_bar d m w) = pos w"
  "files (progress_bar d m w) = files w"
  by (simp_all add: progress_bar_def foldl_stdout_write)

lemma choice_of_two: "[a, b] ! (r mod Suc (Suc 0)) = (if even r then a else b)"
proof (cases "even r")
  case True
  then have "r mod 2 = 0" by presburger
  then show ?thesis using True by (simp add: numeral_2_eq_2)
next
  case False
  then have "r mod 2 = 1" by presburger
  then show ?thesis using False by (simp add: numeral_2_eq_2)
qed

lemma split_on_nonempty [simp]: "split_on c s \<noteq> []"
  by (induction s) (auto split: list.splits)

lemma split_on_append_free:
  "c \<notin> set h \<Longrightarrow> split_on c (h @ rest) = (h @ hd (split_on c rest)) # tl (split_on c rest)"
proof (induction h)
  case Nil
  then show ?case by simp
next
  case (Cons x h)
  then show ?case by (auto split: list.splits)
qed

lemma lines_of_unlines:
  "\<forall>l\<in>set ls. CHR 0x0A \<notin> set l \<Longrightarrow> lines_of (unlines ls) = ls @ [[]]"
proof (induction ls)
  case Nil
  then show ?case by (simp add: lines_of_def unlines_def)
next
  case (Cons l ls)
  then have "split_on (CHR 0x0A) (l @ CHR 0x0A # unlines ls) = l # split_on (CHR 0x0A) (unlines ls)"
    by (simp add: split_on_append_free)
  with Cons show ?case
    by (simp add: lines_of_def unlines_def)
qed

lemma sublist_eval:
  "sublist [] ys" "\<not> sublist (x # xs) []"
  "sublist (x # xs) (y # ys) \<longleftrightarrow> prefix (x # xs) (y # ys) \<or> sublist (x # xs) ys"
  by (simp_all add: sublist_Cons_right)

lemmas text_eval =
  leading_def whitespace_def linebreaks_def newlines_def lstrip_of.simps split_lines.simps
  strip_def splitlines_def file_lines_def split_first_def last_field_def sublist_eval

section \<open>Computing with binary64 values\<close>

lemma floor_rat_numeral_div: "\<lfloor>numeral a / numeral b :: rat\<rfloor> = numeral a div numeral b"
  using floor_divide_of_int_eq [of "numeral a" "numeral b", where ?'a = rat] by simp

lemma ceiling_rat_numeral_div:
  "\<lceil>numeral a / numeral b :: rat\<rceil> = - (- numeral a div numeral b)"
  using floor_divide_of_int_eq [of "- numeral a" "numeral b", where ?'a = rat]
  by (simp add: ceiling_def)

lemma round_half_even_pick: "round_half_even x = round_pick x \<lfloor>x\<rfloor>"
  by (simp add: round_half_even_def round_pick_def Let_def)

lemma b64_scaled:
  "b64 x = (if x = 0 then 0 else sgn x * scaled_round \<bar>x\<bar> (max (ilog2 \<bar>x\<bar>) (- 1022)))"
  by (simp add: b64_def scaled_round_def Let_def)

lemmas float_eval =
  fadd_def fsub_def fmul_def fdiv_def float_of_int_def b64_scaled scaled_round_def ilog2_def
  pow2_def round_half_even_pick round_pick_def bit_length.simps floor_rat_numeral_div
  ceiling_rat_numeral_div

lemma hundredth: "b64 (1 / 100) = 5764607523034235 / 576460752303423488"
  by (simp add: float_eval)

lemma nominal_fpga: "b64 (625 / 10) = 125 / 2"
  by (simp add: float_eval)

lemma nominal_hbm: "b64 (582 / 10) = 4095460911140045 / 70368744177664"
  by (simp add: float_eval)

lemma bounds_fpga:
  "b64 (6234 / 100) = 2193393756017787 / 35184372088832"
  "b64 (6266 / 100) = 2204652755086213 / 35184372088832"
  "fsub (b64 (625 / 10)) (fmul (float_of_int 16) (b64 (1 / 100)))
     = 2193393756017787 / 35184372088832"
  "fadd (b64 (625 / 10)) (fmul (float_of_int 16) (b64 (1 / 100)))
     = 2204652755086213 / 35184372088832"
  unfolding hundredth nominal_fpga by (simp_all add: float_eval)

lemma bounds_hbm:
  "b64 (5812 / 100) = 8179662823211663 / 140737488355328"
  "b64 (5828 / 100) = 2050545205337129 / 35184372088832"
  "fsub (b64 (582 / 10)) (fmul (float_of_int 8) (b64 (1 / 100)))
     = 511228926450729 / 8796093022208"
  "fadd (b64 (582 / 10)) (fmul (float_of_int 8) (b64 (1 / 100)))
     = 2050545205337129 / 35184372088832"
  unfolding hundredth nominal_hbm by (simp_all add: float_eval)

lemma temp_fpga_table: "map temp_fpga fpga_codes = fpga_values"
  unfolding fpga_codes_def fpga_values_def temp_fpga_def hundredth nominal_fpga
  by (simp add: float_eval)

lemma temp_hbm_table: "map temp_hbm hbm_codes = hbm_values"
  unfolding hbm_codes_def hbm_values_def temp_hbm_def hundredth nominal_hbm
  by (simp add: float_eval)

section \<open>The startup sequencer\<close>

lemma simulate_xilinx_command_eq:
  "simulate_xilinx_command c s e w =
     (if even (rng w (Suc (pos w)))
      then (True, py_print (''[SUCCESS] '' @ s)
                    (py_print (''[SIM] '' @ c) (w\<lparr>pos := Suc (Suc (pos w))\<rparr>)))
      else (False, py_print (''[ERROR] '' @ e)
                     (py_print (''[SIM] '' @ c) (w\<lparr>pos := Suc (Suc (pos w))\<rparr>))))"
  by (simp add: simulate_xilinx_command_def sleep_random_uniform_def random_choice_def draw_def
      Let_def choice_of_two)

lemma coin_flip_iff: "coin_flip w i = even (rng w (pos w + 2 * i + 1))"
  by (simp add: coin_flip_def random_choice_def draw_def choice_of_two)

lemma coin_flip_0: "coin_flip w 0 = even (rng w (Suc (pos w)))"
  and coin_flip_1: "coin_flip w (Suc 0) = even (rng w (Suc (Suc (Suc (pos w)))))"
  and coin_flip_2: "coin_flip w 2 = even (rng w (Suc (Suc (Suc (Suc (Suc (pos w)))))))"
  and coin_flip_3:
    "coin_flip w 3 = even (rng w (Suc (Suc (Suc (Suc (Suc (Suc (Suc (pos w)))))))))"
  and coin_flip_4:
    "coin_flip w 4 =
       even (rng w (Suc (Suc (Suc (Suc (Suc (Suc (Suc (Suc (Suc (pos w)))))))))))"
  by (simp_all add: coin_flip_iff eval_nat_numeral)

lemmas coin_flips = coin_flip_0 coin_flip_1 coin_flip_2 coin_flip_3 coin_flip_4

text \<open>
  C1. When the coin of step \<open>k + 1\<close> is the first to fall on failure (and the bitstream
  file is there, for a failure after step 1), the run of \<open>program_device\<close> ends with
  \<^verbatim>\<open>sys.exit(1)\<close>, so with a status that is not 0; the last thing printed is the error
  line of that step, so no later step has printed anything; and the random source has
  been asked exactly \<open>2 * (k + 1)\<close> times, two for each of the steps 1 to \<open>k + 1\<close>: every
  one of them ran once, none was retried, and none after the failing one ran.
\<close>

theorem program_device_stops_at_first_failure:
  assumes "k < 5" and "\<forall>i<k. coin_flip w i" and "\<not> coin_flip w k"
    and "0 < k \<longrightarrow> BITSTREAM_FILE cfg \<in> files w"
  shows "fst (program_device cfg w) = Inl (SystemExit 1)
      \<and> exit_status (fst (program_device cfg w)) \<noteq> 0
      \<and> pos (snd (program_device cfg w)) = pos w + 2 * (k + 1)
      \<and> suffix (failure_line k @ nl) (out (snd (program_device cfg w)))"
proof -
  consider "k = 0" | "k = 1" | "k = 2" | "k = 3" | "k = 4"
    using assms(1) by linarith
  then show ?thesis
  proof cases
    case 1
    with assms(3) have "odd (rng w (Suc (pos w)))"
      by (simp add: coin_flip_0)
    then show ?thesis
      unfolding 1
      by (auto simp: program_device_def simulate_xilinx_command_eq Let_def failure_line_def
          intro!: py_print_ends)
  next
    case 2
    with assms have f: "coin_flip w 0" "\<not> coin_flip w (Suc 0)" "BITSTREAM_FILE cfg \<in> files w"
      by simp_all
    show ?thesis
      using f unfolding 2
      by (auto simp: coin_flips program_device_def simulate_xilinx_command_eq Let_def
          failure_line_def intro!: py_print_ends)
  next
    case 3
    with assms have f: "coin_flip w 0" "coin_flip w (Suc 0)" "\<not> coin_flip w 2"
      "BITSTREAM_FILE cfg \<in> files w"
      by simp_all
    show ?thesis
      using f unfolding 3
      by (auto simp: coin_flips program_device_def simulate_xilinx_command_eq Let_def
          failure_line_def intro!: py_print_ends)
  next
    case 4
    with assms have f: "coin_flip w 0" "coin_flip w (Suc 0)" "coin_flip w 2" "\<not> coin_flip w 3"
      "BITSTREAM_FILE cfg \<in> files w"
      by simp_all
    show ?thesis
      using f unfolding 4
      by (auto simp: coin_flips program_device_def simulate_xilinx_command_eq Let_def
          failure_line_def intro!: py_print_ends)
  next
    case 5
    with assms have f: "coin_flip w 0" "coin_flip w (Suc 0)" "coin_flip w 2" "coin_flip w 3"
      "\<not> coin_flip w 4" "BITSTREAM_FILE cfg \<in> files w"
      by simp_all
    show ?thesis
      using f unfolding 5
      by (auto simp: coin_flips program_device_def simulate_xilinx_command_eq Let_def
          failure_line_def intro!: py_print_ends)
  qed
qed

text \<open>
  A run in which the steps 1 and 2 succeed and step 3 fails: six results of the random
  source are used and the run ends with status 1 on the error line of step 3.
\<close>

theorem program_device_stops_at_first_failure_witness:
  "coin_flip (demo_world (\<lambda>n. if n = 5 then 1 else 0) {BITSTREAM_FILE demo_cfg}) 0
   \<and> coin_flip (demo_world (\<lambda>n. if n = 5 then 1 else 0) {BITSTREAM_FILE demo_cfg}) 1
   \<and> \<not> coin_flip (demo_world (\<lambda>n. if n = 5 then 1 else 0) {BITSTREAM_FILE demo_cfg}) 2
   \<and> fst (program_device demo_cfg
            (demo_world (\<lambda>n. if n = 5 then 1 else 0) {BITSTREAM_FILE demo_cfg}))
       = Inl (SystemExit 1)
   \<and> pos (snd (program_device demo_cfg
            (demo_world (\<lambda>n. if n = 5 then 1 else 0) {BITSTREAM_FILE demo_cfg}))) = 6
   \<and> suffix (''[ERROR] Initialization failed. Check JTAG connection.'' @ nl)
        (out (snd (program_device demo_cfg
            (demo_world (\<lambda>n. if n = 5 then 1 else 0) {BITSTREAM_FILE demo_cfg}))))"
proof -
  let ?w = "demo_world (\<lambda>n. if n = 5 then 1 else 0) {BITSTREAM_FILE demo_cfg}"
  have c: "coin_flip ?w 0" "coin_flip ?w 1" "\<not> coin_flip ?w 2"
    by (simp_all add: coin_flip_iff demo_world_def)
  have k: "(2::nat) < 5"
    by simp
  have before: "\<forall>i<2. coin_flip ?w i"
    using c by (auto simp: less_2_cases_iff)
  have present: "0 < (2::nat) \<longrightarrow> BITSTREAM_FILE demo_cfg \<in> files ?w"
    by (simp add: demo_world_def)
  from program_device_stops_at_first_failure [OF k before c(3) present] c
  show ?thesis
    by (simp add: failure_line_def demo_world_def)
qed

text \<open>
  C2, as the specification states it, fails: the check of the bitstream file is part of
  step 2, after the simulated command of step 1. In this run the file is missing and
  the coin of step 1 falls on success; the lines of step 1's command are printed before
  the error about the file.
\<close>

theorem missing_bitstream_counterexample:
  "BITSTREAM_FILE demo_cfg \<notin> files (demo_world (\<lambda>n. 0) {})
   \<and> fst (program_device demo_cfg (demo_world (\<lambda>n. 0) {})) = Inl (SystemExit 1)
   \<and> out (snd (program_device demo_cfg (demo_world (\<lambda>n. 0) {}))) =
       unlines
         [rule58, ''  Alveo U50 Bitstream Programming (Xilinx Tools)'', rule58, [],
          ''[STEP 1/5] Verifying XRT environment...'',
          ''[SIM] xbflash --device xilinx_u50_gen3x16_xdma_201920_3 --init'',
          ''[SUCCESS] Device initialized successfully.'',
          ''[STEP 2/5] Verifying build output directory '' @ sq @ ''{OUTPUT_DIR}'' @ sq @ ''...'',
          ''[ERROR] Bitstream '' @ sq @ ''./bit_file/alveo_u50_top.bit'' @ sq
            @ '' not found. Generate with Vivado first.'']"
  by (simp add: program_device_def simulate_xilinx_command_eq Let_def demo_cfg_def demo_world_def
      py_print_def unlines_def)

text \<open>
  C2, amended. When the bitstream file is missing, the run ends with \<^verbatim>\<open>sys.exit(1)\<close>
  after exactly one simulated command, that of step 1 (two results of the random
  source), and before the simulated commands of the steps 2 to 5. If step 1 succeeds
  the last line printed is the error about the file; if step 1 fails the run ends on
  the error line of step 1.
\<close>

theorem missing_bitstream_stops_in_step_2:
  assumes "BITSTREAM_FILE cfg \<notin> files w"
  shows "fst (program_device cfg w) = Inl (SystemExit 1)
    \<and> pos (snd (program_device cfg w)) = pos w + 2
    \<and> suffix ((if coin_flip w 0
                then ''[ERROR] Bitstream '' @ sq @ BITSTREAM_FILE cfg @ sq
                       @ '' not found. Generate with Vivado first.''
                else failure_line 0) @ nl)
         (out (snd (program_device cfg w)))"
  using assms
  by (auto simp: coin_flip_0 program_device_def simulate_xilinx_command_eq Let_def
      failure_line_def intro!: py_print_ends)

theorem missing_bitstream_stops_in_step_2_witness:
  "BITSTREAM_FILE demo_cfg \<notin> files (demo_world (\<lambda>n. 0) {})
   \<and> fst (program_device demo_cfg (demo_world (\<lambda>n. 0) {})) = Inl (SystemExit 1)
   \<and> pos (snd (program_device demo_cfg (demo_world (\<lambda>n. 0) {}))) = 2"
proof -
  have absent: "BITSTREAM_FILE demo_cfg \<notin> files (demo_world (\<lambda>n. 0) {})"
    by (simp add: demo_world_def)
  from missing_bitstream_stops_in_step_2 [OF absent] absent
  show ?thesis
    by (simp add: demo_world_def)
qed

section \<open>Locating the bitstream\<close>

lemma startup_never_configures: "startup d \<noteq> Inr cfg"
  by (simp add: startup_def module_ref_def imported_def Let_def split: option.splits)

text \<open>A line of the configuration file ends at a carriage return alone as well.\<close>

lemma file_lines_carriage_return:
  "file_lines (''FOO=1'' @ cr @ ''TARGET_DEVICE=x'') = [''FOO=1'', ''TARGET_DEVICE=x'']"
  by (simp add: text_eval)

lemma parse_config_carriage_return:
  "parse_config (file_lines (''FOO=1'' @ cr @ ''TARGET_DEVICE=x'')) Map.empty ''TARGET_DEVICE''
     = Some ''x''"
  unfolding file_lines_carriage_return by (simp add: text_eval)

text \<open>
  C8. The script means to scan \<^verbatim>\<open>./bit_file\<close> and take the newest \<^verbatim>\<open>.bit\<close> file,
  but line 35 reads the module \<^verbatim>\<open>glob\<close>, which no import statement binds. With a
  valid configuration file and two bitstream files on the disk, the start of the script
  ends in NameError: no file is selected.
\<close>

theorem startup_raises_NameError:
  "startup demo_disk = Inl (NameError ''glob'')"
  by (simp add: startup_def demo_disk_def module_ref_def imported_def text_eval)

section \<open>The diagnostic operations\<close>

lemma and_ffff_word: "x AND 0xFFFF = uint (word_of_int x :: 16 word)" for x :: int
proof -
  have "(0xFFFF :: int) = mask 16"
    by (simp add: mask_eq_exp_minus_1)
  then show ?thesis
    by (simp add: uint_word_of_int_eq take_bit_eq_mask)
qed

lemma shift_mask_word:
  "push_bit i raw AND 0xFFFF = uint (push_bit i (word_of_int raw :: 16 word))" for raw :: int
  unfolding and_ffff_word [symmetric]
  by (simp add: and_ffff_word unsigned_push_bit_eq uint_word_of_int_eq)
    (rule bit_eqI, auto simp add: bit_take_bit_iff bit_push_bit_iff)

lemma replicate_numeral: "replicate (numeral k) x = x # replicate (pred_numeral k) x"
  by (simp add: numeral_eq_Suc)

lemma raw_status_eq:
  "raw_status w = (if even (rng w (pos w)) then 1 else 0, w\<lparr>pos := Suc (pos w)\<rparr>)"
  by (simp add: raw_status_def random_choice_def draw_def choice_of_two)

lemma four: "[0..<4] = [0, 1, 2, 3]"
  by (simp add: upt_rec)

lemma dump1: "reg_dump 1 = [''0x1'', ''0x2'', ''0x4'', ''0x8'']"
  by (simp add: reg_dump_def four hex_def digits_of.simps digit_char_def)
lemma dump0: "reg_dump 0 = [''0x0'', ''0x0'', ''0x0'', ''0x0'']"
  by (simp add: reg_dump_def four hex_def digits_of.simps digit_char_def)

lemma hbm_out:
  "check_hbm_status w =
     (Inr (),
      w\<lparr>pos := Suc (pos w),
        out := out w @ nl @ ''[CMD] Querying HBM Controller (AXI Addr: 0x10000)...'' @ nl
          @ (if even (rng w (pos w))
             then ''[AXI-RD] Register dump: ['' @ sq @ ''0x1'' @ sq @ '', '' @ sq @ ''0x2'' @ sq
                    @ '', '' @ sq @ ''0x4'' @ sq @ '', '' @ sq @ ''0x8'' @ sq @ '']'' @ nl
                  @ ''[RECV] HBM Status Register: 0x0001 (Calibrated, OK)'' @ nl
                  @ ''[INFO] HBM Memory appears to be stable.'' @ nl
             else ''[AXI-RD] Register dump: ['' @ sq @ ''0x0'' @ sq @ '', '' @ sq @ ''0x0'' @ sq
                    @ '', '' @ sq @ ''0x0'' @ sq @ '', '' @ sq @ ''0x0'' @ sq @ '']'' @ nl
                  @ ''[RECV] HBM Status Register: 0x0000 (Idle)'' @ nl
                  @ ''[WARN] HBM not initialized!'' @ nl)\<rparr>)"
  by (simp add: check_hbm_status_def raw_status_eq Let_def dump1 dump0 calibrated_def
      str_list_def repr_str_def format_X_def zfill_def digits_of.simps digit_char_def py_print_def replicate_numeral)

lemma draw_sel [simp]:
  "fst (draw w) = rng w (pos w)" "snd (draw w) = w\<lparr>pos := Suc (pos w)\<rparr>"
  by (simp_all add: draw_def)

lemma random_getrandbits_eq:
  "random_getrandbits k w = (int (rng w (pos w) mod 2 ^ k), w\<lparr>pos := Suc (pos w)\<rparr>)"
  by (simp add: random_getrandbits_def draw_def)

lemma getrandbits_seq_world: "snd (getrandbits_seq k n w) = w\<lparr>pos := pos w + n\<rparr>"
  by (induction n arbitrary: w) (simp_all add: random_getrandbits_eq case_prod_unfold Let_def)

lemma getrandbits_seq_values:
  "fst (getrandbits_seq k n w) = map (\<lambda>i. int (rng w (pos w + i) mod 2 ^ k)) [0..<n]"
proof (induction n arbitrary: w)
  case 0
  then show ?case by simp
next
  case (Suc n)
  have "map (\<lambda>i. int (rng w (pos w + i) mod 2 ^ k)) [0..<Suc n] =
        int (rng w (pos w) mod 2 ^ k) # map (\<lambda>i. int (rng w (pos w + i) mod 2 ^ k)) (map Suc [0..<n])"
    by (simp only: map_Suc_upt upt_conv_Cons [OF zero_less_Suc] list.map) simp
  then show ?case
    using Suc [of "w\<lparr>pos := Suc (pos w)\<rparr>"]
    by (simp add: random_getrandbits_eq case_prod_unfold Let_def comp_def)
qed

lemma getrandbits_seq_range:
  "list_all (\<lambda>x. 0 \<le> x \<and> x < 2 ^ k) (fst (getrandbits_seq k n w))"
proof -
  have "int (m mod 2 ^ k) < 2 ^ k" for m :: nat
  proof -
    have "m mod 2 ^ k < 2 ^ k"
      by simp
    then have "int (m mod 2 ^ k) < int (2 ^ k)"
      by (simp only: of_nat_less_iff)
    then show ?thesis
      by simp
  qed
  then show ?thesis
    by (simp add: getrandbits_seq_values list_all_iff)
qed

lemma bytearray_getrandbits:
  "bytearray (fst (getrandbits_seq 8 n w)) = Inr (fst (getrandbits_seq 8 n w))"
  using getrandbits_seq_range [of 8 n w] by (simp add: bytearray_def)

lemma pcie_progress_eq:
  "pcie_progress w =
     w\<lparr>out := out w @ concat (map (\<lambda>i. cr @ ''[INFO] Progress: '' @ str_int (int i * 10) @ ''%...'')
                                  [0..<11])\<rparr>"
  by (simp add: pcie_progress_def foldl_stdout_write)

lemma run_pcie_test_eq:
  "run_pcie_test w =
     (Inr (),
      py_print (''[RECV] PCIe Link Test: PASS (Integrity OK, checksum=0x''
                @ format_X 4 (sum_list (fst (getrandbits_seq 8 256 w)) AND 0xFFFF) @ '')'')
        (py_print (nl @ ''[INFO] Payload received, verifying...'')
           (pcie_progress
              (py_print ''[INFO] Sending 1MB test payload...''
                 (py_print (nl @ ''[CMD] Initiating PCIe Gen3 x16 loopback test...'') w
                    \<lparr>pos := pos w + 256\<rparr>)))))"
proof -
  have indep: "fst (getrandbits_seq k n (py_print s w)) = fst (getrandbits_seq k n w)" for k n s
    by (simp add: getrandbits_seq_values)
  show ?thesis
    by (simp add: run_pcie_test_def Let_def case_prod_unfold getrandbits_seq_world indep
        bytearray_getrandbits bytes_def)
qed

lemma digit_char_number: "d < 16 \<Longrightarrow> digit_char u d \<in> number_chars"
proof -
  assume d: "d < 16"
  have "digit_char u d \<in> set (if u then ''0123456789ABCDEF'' else ''0123456789abcdef'')"
    unfolding digit_char_def using d by (intro nth_mem) simp
  then show ?thesis
    by (auto simp: number_chars_def split: if_splits)
qed

lemma digits_of_number:
  "2 \<le> b \<Longrightarrow> b \<le> 16 \<Longrightarrow> set (digits_of u b n) \<subseteq> number_chars"
proof (induction u b n rule: digits_of.induct)
  case (1 upper b n)
  show ?case
  proof (cases "n < b")
    case True
    then have "digits_of upper b n = [digit_char upper n]"
      by (subst digits_of.simps) simp
    moreover have "n < 16"
      using True 1(3) by simp
    ultimately show ?thesis
      by (simp add: digit_char_number)
  next
    case False
    then have eq: "digits_of upper b n = digits_of upper b (n div b) @ [digit_char upper (n mod b)]"
      using 1(2) by (subst digits_of.simps) simp
    have "n mod b < 16"
      using 1(2,3) by (meson le_trans less_le_trans mod_less_divisor not_less zero_less_numeral pos2)
    moreover have "set (digits_of upper b (n div b)) \<subseteq> number_chars"
      using 1 False by simp
    ultimately show ?thesis
      by (simp add: eq digit_char_number)
  qed
qed

lemma zfill_number: "set s \<subseteq> number_chars \<Longrightarrow> set (zfill k s) \<subseteq> number_chars"
  by (auto simp: zfill_def number_chars_def)

lemma format_X_number: "set (format_X k n) \<subseteq> number_chars"
proof -
  have "set (digits_of True 16 m) \<subseteq> number_chars" for m
    by (rule digits_of_number) simp_all
  then have "set (zfill j (digits_of True 16 m)) \<subseteq> number_chars" for j m
    by (rule zfill_number)
  then show ?thesis
    by (auto simp: format_X_def number_chars_def)
qed

lemma str_int_number: "set (str_int n) \<subseteq> number_chars"
proof -
  have "set (digits_of False 10 m) \<subseteq> number_chars" for m
    by (rule digits_of_number) simp_all
  then show ?thesis
    by (auto simp: str_int_def number_chars_def)
qed

lemma format_2f_number: "set (format_2f x) \<subseteq> number_chars"
proof -
  have d: "set (digits_of False 10 m) \<subseteq> number_chars" for m
    by (rule digits_of_number) simp_all
  then have "set (zfill j (digits_of False 10 m)) \<subseteq> number_chars" for j m
    by (rule zfill_number)
  with d show ?thesis
    by (auto simp: format_2f_def Let_def number_chars_def)
qed

lemma not_number_char:
  assumes "c \<notin> number_chars"
  shows "c \<notin> set (format_X k n)" "c \<notin> set (str_int n)" "c \<notin> set (format_2f x)"
  using assms format_X_number [of k n] str_int_number [of n] format_2f_number [of x]
  by auto

lemma number_chars_simps [simp]:
  "CHR 0x0A \<notin> number_chars" "CHR ''S'' \<notin> number_chars" "CHR ''L'' \<notin> number_chars"
  "CHR ''K'' \<notin> number_chars" "CHR ''l'' \<notin> number_chars" "CHR ''P'' \<notin> number_chars"
  "CHR ''O'' \<notin> number_chars" "CHR ''I'' \<notin> number_chars"
  by (simp_all add: number_chars_def)

lemma no_keyword_char: "c \<in> set k \<Longrightarrow> c \<notin> set l \<Longrightarrow> \<not> sublist k l"
  using set_mono_sublist by fastforce


subsection \<open>Temperature\<close>

lemma random_randint_eq:
  "random_randint a b w = (a + int (rng w (pos w) mod nat (b - a + 1)), w\<lparr>pos := Suc (pos w)\<rparr>)"
  by (simp add: random_randint_def draw_def)

lemma adc_fpga_eq:
  "adc_fpga w = (15984 + int (rng w (pos w) mod 33), w\<lparr>pos := Suc (pos w)\<rparr>)"
  by (simp add: adc_fpga_def random_randint_eq)

lemma adc_hbm_eq:
  "adc_hbm w = (15192 + int (rng w (pos w) mod 17), w\<lparr>pos := Suc (pos w)\<rparr>)"
  by (simp add: adc_hbm_def random_randint_eq)

lemma fpga_code_range: "15984 \<le> fst (adc_fpga w) \<and> fst (adc_fpga w) \<le> 16016"
proof -
  have "rng w (pos w) mod 33 < 33"
    by simp
  then show ?thesis
    unfolding adc_fpga_eq by simp
qed

lemma hbm_code_range: "15192 \<le> fst (adc_hbm w) \<and> fst (adc_hbm w) \<le> 15208"
proof -
  have "rng w (pos w) mod 17 < 17"
    by simp
  then show ?thesis
    unfolding adc_hbm_eq by simp
qed

lemma fpga_code_listed: "15984 \<le> a \<Longrightarrow> a \<le> 16016 \<Longrightarrow> a \<in> set fpga_codes"
  unfolding fpga_codes_def by simp presburger

lemma hbm_code_listed: "15192 \<le> a \<Longrightarrow> a \<le> 15208 \<Longrightarrow> a \<in> set hbm_codes"
  unfolding hbm_codes_def by simp presburger

lemma fpga_values_bounded:
  "list_all (\<lambda>v. 2193393756017787 / 35184372088832 \<le> v \<and> v \<le> 2204652755086213 / 35184372088832)
     fpga_values"
  by (simp add: fpga_values_def)

lemma hbm_values_bounded:
  "list_all (\<lambda>v. 511228926450729 / 8796093022208 \<le> v \<and> v \<le> 2050545205337129 / 35184372088832)
     hbm_values"
  by (simp add: hbm_values_def)

lemma temp_fpga_bounded:
  assumes "15984 \<le> a" "a \<le> 16016"
  shows "2193393756017787 / 35184372088832 \<le> temp_fpga a
       \<and> temp_fpga a \<le> 2204652755086213 / 35184372088832"
proof -
  have "temp_fpga a \<in> set (map temp_fpga fpga_codes)"
    using fpga_code_listed [OF assms] by simp
  then have "temp_fpga a \<in> set fpga_values"
    by (simp only: temp_fpga_table)
  with fpga_values_bounded show ?thesis
    by (auto simp: list_all_iff)
qed

lemma temp_hbm_bounded:
  assumes "15192 \<le> a" "a \<le> 15208"
  shows "511228926450729 / 8796093022208 \<le> temp_hbm a
       \<and> temp_hbm a \<le> 2050545205337129 / 35184372088832"
proof -
  have "temp_hbm a \<in> set (map temp_hbm hbm_codes)"
    using hbm_code_listed [OF assms] by simp
  then have "temp_hbm a \<in> set hbm_values"
    by (simp only: temp_hbm_table)
  with hbm_values_bounded show ?thesis
    by (auto simp: list_all_iff)
qed

text \<open>
  C5. Whatever the random source gives, the ADC code of the FPGA sensor is within 16 of
  its nominal code \<^verbatim>\<open>0x3E80\<close> and that of the HBM sensor within 8 of \<^verbatim>\<open>0x3B60\<close>, and
  the Celsius values computed from them lie between nominal minus and nominal plus the
  largest jitter times 0.01: between 62.34 and 62.66 for the FPGA and between 58.12 and
  58.28 for the HBM. The values and the bounds are binary64 numbers: each bound is given
  both as the float expression (\<^verbatim>\<open>62.5 - 16 * 0.01\<close> and so on) and as the float that
  the decimal literal denotes, which is how a Python comparison reads them. (A float is
  not the decimal it prints as: the largest HBM value is the float nearest to 58.28,
  and the smallest is one step above the float nearest to 58.12.)
\<close>

theorem read_temp_within_bounds:
  "0x3E80 - 16 \<le> fst (adc_fpga w) \<and> fst (adc_fpga w) \<le> 0x3E80 + 16
   \<and> fsub (b64 (625 / 10)) (fmul (float_of_int 16) (b64 (1 / 100))) \<le> temp_fpga (fst (adc_fpga w))
   \<and> temp_fpga (fst (adc_fpga w)) \<le> fadd (b64 (625 / 10)) (fmul (float_of_int 16) (b64 (1 / 100)))
   \<and> b64 (6234 / 100) \<le> temp_fpga (fst (adc_fpga w))
   \<and> temp_fpga (fst (adc_fpga w)) \<le> b64 (6266 / 100)
   \<and> 0x3B60 - 8 \<le> fst (adc_hbm w) \<and> fst (adc_hbm w) \<le> 0x3B60 + 8
   \<and> fsub (b64 (582 / 10)) (fmul (float_of_int 8) (b64 (1 / 100))) \<le> temp_hbm (fst (adc_hbm w))
   \<and> temp_hbm (fst (adc_hbm w)) \<le> fadd (b64 (582 / 10)) (fmul (float_of_int 8) (b64 (1 / 100)))
   \<and> b64 (5812 / 100) \<le> temp_hbm (fst (adc_hbm w))
   \<and> temp_hbm (fst (adc_hbm w)) \<le> b64 (5828 / 100)"
proof -
  note f = fpga_code_range [of w] and h = hbm_code_range [of w]
  from f have tf: "2193393756017787 / 35184372088832 \<le> temp_fpga (fst (adc_fpga w))
       \<and> temp_fpga (fst (adc_fpga w)) \<le> 2204652755086213 / 35184372088832"
    by (intro temp_fpga_bounded) simp_all
  from h have th: "511228926450729 / 8796093022208 \<le> temp_hbm (fst (adc_hbm w))
       \<and> temp_hbm (fst (adc_hbm w)) \<le> 2050545205337129 / 35184372088832"
    by (intro temp_hbm_bounded) simp_all
  have low: "(8179662823211663 / 140737488355328 :: rat) \<le> 511228926450729 / 8796093022208"
    by simp
  show ?thesis
    unfolding bounds_fpga bounds_hbm
    using f h tf th low by simp
qed

subsection \<open>HBM status\<close>

text \<open>
  C6. The raw status word is 1 or 0; the calibration flag is its bit 0; the register
  dump holds, in \<^verbatim>\<open>hex\<close> notation, the word shifted left by 0, 1, 2 and 3 places in a
  register of 16 bits; and these are the values that \<open>check_hbm_status\<close> prints.
\<close>

theorem check_hbm_status_register:
  "fst (raw_status w) \<in> {0x0001, 0x0000}
   \<and> calibrated (fst (raw_status w)) = bit (fst (raw_status w)) 0
   \<and> reg_dump (fst (raw_status w)) =
       map (\<lambda>i. hex (uint (push_bit i (word_of_int (fst (raw_status w)) :: 16 word)))) [0, 1, 2, 3]
   \<and> out (snd (check_hbm_status (w\<lparr>out := []\<rparr>))) =
       unlines
         [[], ''[CMD] Querying HBM Controller (AXI Addr: 0x10000)...'',
          ''[AXI-RD] Register dump: '' @ str_list (reg_dump (fst (raw_status w))),
          ''[RECV] HBM Status Register: 0x'' @ format_X 4 (fst (raw_status w)) @ '' (''
            @ (if calibrated (fst (raw_status w)) then ''Calibrated, OK'' else ''Idle'') @ '')'',
          if calibrated (fst (raw_status w)) then ''[INFO] HBM Memory appears to be stable.''
          else ''[WARN] HBM not initialized!'']"
proof -
  have a: "fst (raw_status w) \<in> {0x0001, 0x0000}
      \<and> calibrated (fst (raw_status w)) = bit (fst (raw_status w)) 0
      \<and> reg_dump (fst (raw_status w)) =
          map (\<lambda>i. hex (uint (push_bit i (word_of_int (fst (raw_status w)) :: 16 word)))) [0, 1, 2, 3]"
    by (simp add: raw_status_eq calibrated_def reg_dump_def shift_mask_word four)
  have b: "out (snd (check_hbm_status (w\<lparr>out := []\<rparr>))) =
       unlines
         [[], ''[CMD] Querying HBM Controller (AXI Addr: 0x10000)...'',
          ''[AXI-RD] Register dump: '' @ str_list (reg_dump (fst (raw_status w))),
          ''[RECV] HBM Status Register: 0x'' @ format_X 4 (fst (raw_status w)) @ '' (''
            @ (if calibrated (fst (raw_status w)) then ''Calibrated, OK'' else ''Idle'') @ '')'',
          if calibrated (fst (raw_status w)) then ''[INFO] HBM Memory appears to be stable.''
          else ''[WARN] HBM not initialized!'']"
    by (simp add: check_hbm_status_def raw_status_eq Let_def unlines_def py_print_def)
  from a b show ?thesis
    by blast
qed


subsection \<open>PCIe loopback test\<close>

lemma number_char_free [simp]:
  "c \<notin> number_chars \<Longrightarrow> c \<notin> set (format_X k n)"
  "c \<notin> number_chars \<Longrightarrow> c \<notin> set (str_int n)"
  "c \<notin> number_chars \<Longrightarrow> c \<notin> set (format_2f x)"
  by (simp_all add: not_number_char)

lemma str_int_tens:
  "str_int 0 = ''0''" "str_int 10 = ''10''" "str_int 20 = ''20''" "str_int 30 = ''30''"
  "str_int 40 = ''40''" "str_int 50 = ''50''" "str_int 60 = ''60''" "str_int 70 = ''70''"
  "str_int 80 = ''80''" "str_int 90 = ''90''" "str_int 100 = ''100''"
  by (simp_all add: str_int_def digits_of.simps digit_char_def)

lemma eleven: "[0..<11] = [0, 1, 2, 3, 4, 5, 6, 7, 8, 9, 10]"
  by (simp add: upt_rec)

lemma pcie_progress_text:
  "concat (map (\<lambda>i. cr @ ''[INFO] Progress: '' @ str_int (int i * 10) @ ''%...'') [0..<11])
     = pcie_progress_line"
  unfolding eleven pcie_progress_line_def by (simp add: str_int_tens)

lemma pcie_progress_line_eq: "pcie_progress w = w\<lparr>out := out w @ pcie_progress_line\<rparr>"
  by (simp only: pcie_progress_eq pcie_progress_text)

lemma getrandbits_seq_length: "length (fst (getrandbits_seq k n w)) = n"
  by (simp add: getrandbits_seq_values)

lemma getrandbits_seq_out [simp]:
  "fst (getrandbits_seq k n (w\<lparr>out := s\<rparr>)) = fst (getrandbits_seq k n w)"
  by (simp add: getrandbits_seq_values)

lemma run_pcie_test_out:
  "run_pcie_test (w\<lparr>out := []\<rparr>) =
     (Inr (),
      w\<lparr>pos := pos w + 256,
        out := unlines
          [[], ''[CMD] Initiating PCIe Gen3 x16 loopback test...'',
           ''[INFO] Sending 1MB test payload...'',
           pcie_progress_line,
           ''[INFO] Payload received, verifying...'',
           ''[RECV] PCIe Link Test: PASS (Integrity OK, checksum=0x''
             @ format_X 4 (sum_list (fst (getrandbits_seq 8 256 w)) AND 0xFFFF) @ '')'']\<rparr>)"
  by (simp add: run_pcie_test_eq pcie_progress_line_eq py_print_def unlines_def)

lemma pcie_progress_line_free: "CHR 0x0A \<notin> set pcie_progress_line"
  by (simp add: pcie_progress_line_def)

lemma run_pcie_test_lines:
  "lines_of (out (snd (run_pcie_test (w\<lparr>out := []\<rparr>)))) =
     [[], ''[CMD] Initiating PCIe Gen3 x16 loopback test...'',
      ''[INFO] Sending 1MB test payload...'',
      pcie_progress_line,
      ''[INFO] Payload received, verifying...'',
      ''[RECV] PCIe Link Test: PASS (Integrity OK, checksum=0x''
        @ format_X 4 (sum_list (fst (getrandbits_seq 8 256 w)) AND 0xFFFF) @ '')'',
      []]"
  unfolding run_pcie_test_out
  by (simp add: lines_of_unlines pcie_progress_line_free)

lemma has_keywordI:
  "k \<in> set status_keywords \<Longrightarrow> l = ps @ k @ ss \<Longrightarrow> has_keyword l"
  by (auto simp: has_keyword_def list_ex_iff sublist_def)

text \<open>
  C3. Whatever the random source gives, the payload of \<open>run_pcie_test\<close> has 256
  elements, all of them bytes (the \<^verbatim>\<open>bytearray\<close> does not raise), the checksum of the
  received copy equals that of the payload, and the run returns normally after printing
  exactly these lines, the last of which is the PASS line with that checksum. The line of
  the data mismatch is not among the lines printed.
\<close>

theorem run_pcie_test_always_passes:
  "length (fst (getrandbits_seq 8 256 w)) = 256
   \<and> bytearray (fst (getrandbits_seq 8 256 w)) = Inr (fst (getrandbits_seq 8 256 w))
   \<and> sum_list (fst (getrandbits_seq 8 256 w)) AND 0xFFFF
       = sum_list (bytes (fst (getrandbits_seq 8 256 w))) AND 0xFFFF
   \<and> run_pcie_test (w\<lparr>out := []\<rparr>) =
       (Inr (),
        w\<lparr>pos := pos w + 256,
          out := unlines
            [[], ''[CMD] Initiating PCIe Gen3 x16 loopback test...'',
             ''[INFO] Sending 1MB test payload...'',
             pcie_progress_line,
             ''[INFO] Payload received, verifying...'',
             ''[RECV] PCIe Link Test: PASS (Integrity OK, checksum=0x''
               @ format_X 4 (sum_list (fst (getrandbits_seq 8 256 w)) AND 0xFFFF) @ '')'']\<rparr>)
   \<and> ''[FAIL] Data mismatch detected in loopback test.''
       \<notin> set (lines_of (out (snd (run_pcie_test (w\<lparr>out := []\<rparr>)))))"
proof -
  have "''[FAIL] Data mismatch detected in loopback test.''
       \<notin> set (lines_of (out (snd (run_pcie_test (w\<lparr>out := []\<rparr>)))))"
    unfolding run_pcie_test_lines by (simp add: pcie_progress_line_def)
  then show ?thesis
    using run_pcie_test_out [of w]
    by (simp add: getrandbits_seq_length bytearray_getrandbits bytes_def)
qed


subsection \<open>Status lines of the four operations\<close>

lemma has_keyword_in_lines: "l \<in> set ls \<Longrightarrow> has_keyword l \<Longrightarrow> list_ex has_keyword ls"
  by (auto simp: list_ex_iff)

lemma check_hbm_status_keyword:
  "fst (check_hbm_status w) = Inr ()
   \<and> list_ex has_keyword (lines_of (out (snd (check_hbm_status (w\<lparr>out := []\<rparr>)))))"
proof (cases "even (rng w (pos w))")
  case True
  have "out (snd (check_hbm_status (w\<lparr>out := []\<rparr>))) =
      unlines [[], ''[CMD] Querying HBM Controller (AXI Addr: 0x10000)...'',
        ''[AXI-RD] Register dump: ['' @ sq @ ''0x1'' @ sq @ '', '' @ sq @ ''0x2'' @ sq
          @ '', '' @ sq @ ''0x4'' @ sq @ '', '' @ sq @ ''0x8'' @ sq @ '']'',
        ''[RECV] HBM Status Register: 0x0001 (Calibrated, OK)'',
        ''[INFO] HBM Memory appears to be stable.'']"
    using True by (simp add: hbm_out unlines_def)
  then have "''[RECV] HBM Status Register: 0x0001 (Calibrated, OK)''
      \<in> set (lines_of (out (snd (check_hbm_status (w\<lparr>out := []\<rparr>)))))"
    by (simp add: lines_of_unlines)
  moreover have "has_keyword ''[RECV] HBM Status Register: 0x0001 (Calibrated, OK)''"
    by (rule has_keywordI [where k = "''Calibrated''"
          and ps = "''[RECV] HBM Status Register: 0x0001 (''" and ss = "'', OK)''"])
       (simp_all add: status_keywords_def)
  ultimately show ?thesis
    by (simp add: hbm_out has_keyword_in_lines)
next
  case False
  have "out (snd (check_hbm_status (w\<lparr>out := []\<rparr>))) =
      unlines [[], ''[CMD] Querying HBM Controller (AXI Addr: 0x10000)...'',
        ''[AXI-RD] Register dump: ['' @ sq @ ''0x0'' @ sq @ '', '' @ sq @ ''0x0'' @ sq
          @ '', '' @ sq @ ''0x0'' @ sq @ '', '' @ sq @ ''0x0'' @ sq @ '']'',
        ''[RECV] HBM Status Register: 0x0000 (Idle)'',
        ''[WARN] HBM not initialized!'']"
    using False by (simp add: hbm_out unlines_def)
  then have "''[RECV] HBM Status Register: 0x0000 (Idle)''
      \<in> set (lines_of (out (snd (check_hbm_status (w\<lparr>out := []\<rparr>)))))"
    by (simp add: lines_of_unlines)
  moreover have "has_keyword ''[RECV] HBM Status Register: 0x0000 (Idle)''"
    by (rule has_keywordI [where k = "''Idle''"
          and ps = "''[RECV] HBM Status Register: 0x0000 (''" and ss = "'')''"])
       (simp_all add: status_keywords_def)
  ultimately show ?thesis
    by (simp add: hbm_out has_keyword_in_lines)
qed

lemma run_pcie_test_keyword:
  "fst (run_pcie_test w) = Inr ()
   \<and> list_ex has_keyword (lines_of (out (snd (run_pcie_test (w\<lparr>out := []\<rparr>)))))"
proof -
  have "has_keyword (''[RECV] PCIe Link Test: PASS (Integrity OK, checksum=0x''
        @ format_X 4 (sum_list (fst (getrandbits_seq 8 256 w)) AND 0xFFFF) @ '')'')"
    by (rule has_keywordI [where k = "''PASS''" and ps = "''[RECV] PCIe Link Test: ''"
          and ss = "'' (Integrity OK, checksum=0x''
            @ format_X 4 (sum_list (fst (getrandbits_seq 8 256 w)) AND 0xFFFF) @ '')''"])
       (simp_all add: status_keywords_def)
  then have "list_ex has_keyword (lines_of (out (snd (run_pcie_test (w\<lparr>out := []\<rparr>)))))"
    unfolding run_pcie_test_lines by simp
  then show ?thesis
    by (simp add: run_pcie_test_eq)
qed

lemma send_data_out:
  "send_data w =
     (Inr (),
      w\<lparr>pos := pos w + 4097,
        out := out w @ unlines
          [[], ''[CMD] Allocating buffer and sending 4KB data to Kernel_0...'',
           ''[INFO] Data transfer complete. Buffer checksum=0x''
             @ format_X 8 (sum_list (fst (getrandbits_seq 8 4096 w)) AND 0xFFFFFFFF),
           ''[RECV] Kernel_0 returned status OK. Latency: ''
             @ str_int (140 + int (rng w (pos w + 4096) mod 21)) @ '' us.'']\<rparr>)"
proof -
  have indep: "fst (getrandbits_seq k n (py_print s w)) = fst (getrandbits_seq k n w)" for k n s
    by (simp add: getrandbits_seq_values)
  show ?thesis
    by (simp add: send_data_def Let_def case_prod_unfold getrandbits_seq_world indep
        bytearray_getrandbits random_randint_eq py_print_def unlines_def)
qed

lemma send_data_keyword:
  "fst (send_data w) = Inr ()
   \<and> list_ex has_keyword (lines_of (out (snd (send_data (w\<lparr>out := []\<rparr>)))))"
proof -
  let ?l = "''[RECV] Kernel_0 returned status OK. Latency: ''
             @ str_int (140 + int (rng w (pos w + 4096) mod 21)) @ '' us.''"
  have "has_keyword ?l"
    by (rule has_keywordI [where k = "''OK''" and ps = "''[RECV] Kernel_0 returned status ''"
          and ss = "''. Latency: '' @ str_int (140 + int (rng w (pos w + 4096) mod 21)) @ '' us.''"])
       (simp_all add: status_keywords_def)
  moreover have "?l \<in> set (lines_of (out (snd (send_data (w\<lparr>out := []\<rparr>)))))"
    by (simp add: send_data_out lines_of_unlines)
  ultimately show ?thesis
    by (simp add: send_data_out has_keyword_in_lines)
qed

lemma read_temp_out:
  "read_temp w =
     (Inr (),
      w\<lparr>pos := pos w + 2,
        out := out w @ unlines
          [[], ''[CMD] Reading thermal sensor array...'',
           ''[AXI-RD] FPGA ADC raw = 0x'' @ format_X 0 (fst (adc_fpga w)),
           ''[AXI-RD] HBM  ADC raw = 0x'' @ format_X 0 (fst (adc_hbm (snd (adc_fpga w)))),
           ''[RECV] FPGA Die Temperature: '' @ format_2f (temp_fpga (fst (adc_fpga w))) @ '' C'',
           ''[RECV] HBM Stack Temperature: ''
             @ format_2f (temp_hbm (fst (adc_hbm (snd (adc_fpga w))))) @ '' C'']\<rparr>)"
  by (simp add: read_temp_def Let_def adc_fpga_eq adc_hbm_eq py_print_def unlines_def)

lemma no_keyword:
  assumes "CHR ''S'' \<notin> set l \<or> CHR ''P'' \<notin> set l"
    and "CHR ''L'' \<notin> set l"
    and "CHR ''K'' \<notin> set l"
    and "CHR ''l'' \<notin> set l \<or> CHR ''b'' \<notin> set l"
    and "CHR ''l'' \<notin> set l \<or> CHR ''I'' \<notin> set l"
  shows "\<not> has_keyword l"
proof -
  have "\<not> sublist ''PASS'' l"
    using assms(1) no_keyword_char [of "CHR ''S''" "''PASS''" l]
      no_keyword_char [of "CHR ''P''" "''PASS''" l] by auto
  moreover have "\<not> sublist ''FAIL'' l"
    using assms(2) no_keyword_char [of "CHR ''L''" "''FAIL''" l] by auto
  moreover have "\<not> sublist ''OK'' l"
    using assms(3) no_keyword_char [of "CHR ''K''" "''OK''" l] by auto
  moreover have "\<not> sublist ''Calibrated'' l"
    using assms(4) no_keyword_char [of "CHR ''l''" "''Calibrated''" l]
      no_keyword_char [of "CHR ''b''" "''Calibrated''" l] by auto
  moreover have "\<not> sublist ''Idle'' l"
    using assms(5) no_keyword_char [of "CHR ''l''" "''Idle''" l]
      no_keyword_char [of "CHR ''I''" "''Idle''" l] by auto
  ultimately show ?thesis
    by (simp add: has_keyword_def status_keywords_def)
qed

lemma read_temp_no_keyword:
  "\<not> list_ex has_keyword (lines_of (out (snd (read_temp (w\<lparr>out := []\<rparr>)))))"
proof -
  have "\<not> has_keyword []"
    by (rule no_keyword) simp_all
  moreover have "\<not> has_keyword ''[CMD] Reading thermal sensor array...''"
    by (rule no_keyword) simp_all
  moreover have "\<not> has_keyword (''[AXI-RD] FPGA ADC raw = 0x'' @ format_X 0 a)" for a
    by (rule no_keyword) simp_all
  moreover have "\<not> has_keyword (''[AXI-RD] HBM  ADC raw = 0x'' @ format_X 0 a)" for a
    by (rule no_keyword) simp_all
  moreover have "\<not> has_keyword (''[RECV] FPGA Die Temperature: '' @ format_2f t @ '' C'')" for t
    by (rule no_keyword) simp_all
  moreover have "\<not> has_keyword (''[RECV] HBM Stack Temperature: '' @ format_2f t @ '' C'')" for t
    by (rule no_keyword) simp_all
  ultimately show ?thesis
    by (simp add: read_temp_out lines_of_unlines)
qed


lemma read_temp_demo:
  "out (snd (read_temp (demo_world (\<lambda>n. 16) {}))) =
     unlines
       [[], ''[CMD] Reading thermal sensor array...'',
        ''[AXI-RD] FPGA ADC raw = 0x3E80'', ''[AXI-RD] HBM  ADC raw = 0x3B68'',
        ''[RECV] FPGA Die Temperature: 62.50 C'',
        ''[RECV] HBM Stack Temperature: 58.28 C'']"
proof -
  have a: "fst (adc_fpga (demo_world (\<lambda>n. 16) {})) = 16000"
    "fst (adc_hbm (snd (adc_fpga (demo_world (\<lambda>n. 16) {})))) = 15208"
    by (simp_all add: adc_fpga_eq adc_hbm_eq demo_world_def)
  have x: "format_X 0 16000 = ''3E80''" "format_X 0 15208 = ''3B68''"
    by (simp_all add: format_X_def zfill_def digits_of.simps digit_char_def)
  have t: "temp_fpga 16000 = 125 / 2" "temp_hbm 15208 = 2050545205337129 / 35184372088832"
    unfolding temp_fpga_def temp_hbm_def hundredth nominal_fpga nominal_hbm
    by (simp_all add: float_eval)
  have f: "format_2f (125 / 2) = ''62.50''"
    "format_2f (2050545205337129 / 35184372088832) = ''58.28''"
    by (simp_all add: format_2f_def round_half_even_pick round_pick_def floor_rat_numeral_div
        zfill_def digits_of.simps digit_char_def Let_def)
  show ?thesis
    by (simp add: read_temp_out a x t f) (simp add: demo_world_def)
qed

text \<open>
  C4, as the specification states it, fails for the third command. In this run
  \<open>read_temp\<close> returns normally and prints these lines; none of them contains PASS,
  FAIL, OK, Calibrated or Idle.
\<close>

theorem read_temp_keyword_counterexample:
  "fst (read_temp (demo_world (\<lambda>n. 16) {})) = Inr ()
   \<and> out (snd (read_temp (demo_world (\<lambda>n. 16) {}))) =
       unlines
         [[], ''[CMD] Reading thermal sensor array...'',
          ''[AXI-RD] FPGA ADC raw = 0x3E80'', ''[AXI-RD] HBM  ADC raw = 0x3B68'',
          ''[RECV] FPGA Die Temperature: 62.50 C'',
          ''[RECV] HBM Stack Temperature: 58.28 C'']
   \<and> \<not> list_ex has_keyword (lines_of (out (snd (read_temp (demo_world (\<lambda>n. 16) {})))))"
proof -
  have "(demo_world (\<lambda>n. 16) {})\<lparr>out := []\<rparr> = demo_world (\<lambda>n. 16) {}"
    by (simp add: demo_world_def)
  with read_temp_no_keyword [of "demo_world (\<lambda>n. 16) {}"]
  have "\<not> list_ex has_keyword (lines_of (out (snd (read_temp (demo_world (\<lambda>n. 16) {})))))"
    by simp
  with read_temp_demo show ?thesis
    by (simp add: read_temp_out)
qed

text \<open>
  C4, amended. None of the four operations raises. \<open>check_hbm_status\<close>,
  \<open>run_pcie_test\<close> and \<open>send_data\<close> always print at least one line that contains a
  status keyword (Calibrated or Idle, PASS, OK). \<open>read_temp\<close> draws two random
  numbers and prints exactly an empty line, its command line, the two ADC lines and the
  two temperature lines; no line of it contains a status keyword.
\<close>

theorem operations_return_and_status_lines:
  "fst (check_hbm_status w) = Inr ()
   \<and> list_ex has_keyword (lines_of (out (snd (check_hbm_status (w\<lparr>out := []\<rparr>)))))
   \<and> fst (run_pcie_test w) = Inr ()
   \<and> list_ex has_keyword (lines_of (out (snd (run_pcie_test (w\<lparr>out := []\<rparr>)))))
   \<and> fst (send_data w) = Inr ()
   \<and> list_ex has_keyword (lines_of (out (snd (send_data (w\<lparr>out := []\<rparr>)))))
   \<and> fst (read_temp w) = Inr ()
   \<and> read_temp (w\<lparr>out := []\<rparr>) =
       (Inr (),
        w\<lparr>pos := pos w + 2,
          out := unlines
            [[], ''[CMD] Reading thermal sensor array...'',
             ''[AXI-RD] FPGA ADC raw = 0x'' @ format_X 0 (fst (adc_fpga w)),
             ''[AXI-RD] HBM  ADC raw = 0x'' @ format_X 0 (fst (adc_hbm (snd (adc_fpga w)))),
             ''[RECV] FPGA Die Temperature: '' @ format_2f (temp_fpga (fst (adc_fpga w))) @ '' C'',
             ''[RECV] HBM Stack Temperature: ''
               @ format_2f (temp_hbm (fst (adc_hbm (snd (adc_fpga w))))) @ '' C'']\<rparr>)
   \<and> \<not> list_ex has_keyword (lines_of (out (snd (read_temp (w\<lparr>out := []\<rparr>)))))"
proof -
  have "read_temp (w\<lparr>out := []\<rparr>) =
       (Inr (),
        w\<lparr>pos := pos w + 2,
          out := unlines
            [[], ''[CMD] Reading thermal sensor array...'',
             ''[AXI-RD] FPGA ADC raw = 0x'' @ format_X 0 (fst (adc_fpga w)),
             ''[AXI-RD] HBM  ADC raw = 0x'' @ format_X 0 (fst (adc_hbm (snd (adc_fpga w)))),
             ''[RECV] FPGA Die Temperature: '' @ format_2f (temp_fpga (fst (adc_fpga w))) @ '' C'',
             ''[RECV] HBM Stack Temperature: ''
               @ format_2f (temp_hbm (fst (adc_hbm (snd (adc_fpga w))))) @ '' C'']\<rparr>)"
    by (simp add: read_temp_out adc_fpga_eq adc_hbm_eq)
  then show ?thesis
    using check_hbm_status_keyword [of w] run_pcie_test_keyword [of w] send_data_keyword [of w]
      read_temp_no_keyword [of w]
    by (simp add: read_temp_out)
qed

section \<open>Device identity\<close>

lemma find_nonempty: "find (\<lambda>l. sublist (c # k) l) ls = Some l \<Longrightarrow> l \<noteq> []"
  by (auto simp: find_Some_iff)

lemma get_device_info_success:
  "get_device_info (Exited 0 stdout) =
     Inr \<lparr>device = (case find (\<lambda>l. sublist ''Device'' l) (splitlines stdout) of
                       None \<Rightarrow> ''xilinx_u50_gen3x16_xdma_201920_3'' | Some l \<Rightarrow> last_field l),
           firmware = ''alveo_u50_top.bit'',
           connection = ''JTAG-over-PCIe'',
           serial = (case find (\<lambda>l. sublist ''S/N'' l) (splitlines stdout) of
                       None \<Rightarrow> ''21340D8XYZ123'' | Some l \<Rightarrow> last_field l)\<rparr>"
  by (auto simp: get_device_info_def get_device_info_try_def subprocess_run_def Let_def
      split: option.splits dest: find_nonempty)

lemma get_device_info_raised:
  "get_device_info Missing = Inr fallback" "get_device_info Undecodable = Inr fallback"
  "returncode \<noteq> 0 \<Longrightarrow> get_device_info (Exited returncode stdout) = Inr fallback"
  by (simp_all add: get_device_info_def get_device_info_try_def subprocess_run_def fallback_def)

lemma get_device_info_fixed_fields:
  "\<exists>info. get_device_info q = Inr info
       \<and> firmware info = ''alveo_u50_top.bit'' \<and> connection info = ''JTAG-over-PCIe''"
proof (cases q)
  case (Exited returncode stdout)
  then show ?thesis
    by (cases "returncode = 0")
      (simp_all add: get_device_info_success get_device_info_raised fallback_def)
qed (simp_all add: get_device_info_raised fallback_def)

text \<open>
  Lines end and white space is stripped at characters beyond ASCII as well: here at the
  line separator U+2028, the next line character U+0085 and the no-break space U+00A0.
\<close>

lemma splitlines_line_separator:
  "splitlines (''Device: A'' @ [CHR 0xE2, CHR 0x80, CHR 0xA8] @ ''S/N: B'')
     = [''Device: A'', ''S/N: B'']"
  by (simp add: text_eval)

lemma strip_no_break_space:
  "strip ([CHR 0xC2, CHR 0xA0] @ '' x'' @ [CHR 0xC2, CHR 0x85, CHR 0x09]) = ''x''"
  by (simp add: text_eval)









section \<open>The menu loop\<close>

lemma print_header_sel [simp]:
  "rng (print_header info w) = rng w" "pos (print_header info w) = pos w"
  "files (print_header info w) = files w"
  by (simp_all add: print_header_def Let_def)

lemma main_menu_sel [simp]:
  "rng (main_menu w) = rng w" "pos (main_menu w) = pos w" "files (main_menu w) = files w"
  by (simp_all add: main_menu_def Let_def)

lemma clear_screen_id [simp]: "clear_screen w = w"
  by (simp add: clear_screen_def)

lemma char_of_eqI: "n < 256 \<Longrightarrow> (of_char c :: nat) = n \<Longrightarrow> char_of n = c"
  by auto

lemma lower_char_Q: "lower_char CHR ''Q'' = CHR ''q''" "lower_char CHR ''q'' = CHR ''q''"
proof -
  have "char_of (113::nat) = CHR ''q''"
    by (rule char_of_eqI) simp_all
  then show "lower_char CHR ''Q'' = CHR ''q''" "lower_char CHR ''q'' = CHR ''q''"
    by (simp_all add: lower_char_def)
qed

lemma lower_char_q: "lower_char c = CHR ''q'' \<longleftrightarrow> c = CHR ''q'' \<or> c = CHR ''Q''"
proof
  assume a: "lower_char c = CHR ''q''"
  show "c = CHR ''q'' \<or> c = CHR ''Q''"
  proof (cases "65 \<le> (of_char c :: nat) \<and> (of_char c :: nat) \<le> 90")
    case True
    with a have "char_of ((of_char c :: nat) + 32) = CHR ''q''"
      by (simp add: lower_char_def)
    then have "(of_char (char_of ((of_char c :: nat) + 32) :: char) :: nat) = of_char CHR ''q''"
      by simp
    then have "((of_char c :: nat) + 32) mod 256 = 113"
      by simp
    with True have "(of_char c :: nat) = 81"
      by simp
    moreover have "(of_char CHR ''Q'' :: nat) = 81"
      by simp
    ultimately have "(of_char c :: nat) = of_char CHR ''Q''"
      by (simp only:)
    then have "c = CHR ''Q''"
      by (rule of_char_eq_iff [THEN iffD1])
    then show ?thesis
      by (simp only: simp_thms)
  next
    case False
    with a show ?thesis
      by (simp add: lower_char_def)
  qed
next
  assume "c = CHR ''q'' \<or> c = CHR ''Q''"
  then show "lower_char c = CHR ''q''"
    by (auto simp: lower_char_Q)
qed

lemma lower_q: "lower choice = ''q'' \<longleftrightarrow> choice = ''q'' \<or> choice = ''Q''"
  by (cases choice) (auto simp: lower_def lower_char_q)

lemma after_operation_sel [simp]:
  "snd (after_operation r) = snd r" "fst (after_operation r) \<noteq> Inr True"
  by (cases r; cases "fst r"; simp add: after_operation_def)+



lemma menu_dispatch_quit:
  "lower choice = ''q'' \<Longrightarrow>
     menu_dispatch choice w = (Inr True, py_print (nl @ ''Disconnecting from device...'') w)"
  by (auto simp: menu_dispatch_def lower_q)

lemma menu_dispatch_invalid:
  "choice \<notin> {''1'', ''2'', ''3'', ''4''} \<Longrightarrow> lower choice \<noteq> ''q'' \<Longrightarrow>
     menu_dispatch choice w = (Inr False, py_print (nl @ ''Invalid option.'') w)"
  by (simp add: menu_dispatch_def)



lemma menu_loop_invalid:
  assumes "choice \<notin> {''1'', ''2'', ''3'', ''4''}" and "lower choice \<noteq> ''q''"
  shows "menu_loop info (choice # acknowledged # pending) w =
     menu_loop info pending
       (stdout_write (nl @ ''Press [Enter] to return to the menu...'')
          (py_print (nl @ ''Invalid option.'') (main_menu (print_header info (clear_screen w)))))"
  using assms by (simp add: menu_dispatch_invalid)

lemma menu_loop_quit:
  assumes "lower choice = ''q''"
  shows "menu_loop info (choice # pending) w =
     (Inr (), py_print (nl @ ''Disconnecting from device...'')
                (main_menu (print_header info (clear_screen w))))"
  using assms by (simp add: menu_dispatch_quit)

text \<open>
  C7. For a line that is none of \<^verbatim>\<open>1\<close> to \<^verbatim>\<open>4\<close> and not \<^verbatim>\<open>q\<close> in lower case, one turn
  of the loop draws the header and the menu, prints the message for an invalid option and
  the prompt to press Enter, takes the acknowledging line and goes on with the rest of
  the input: nothing but standard output has changed, the random source, its position
  and the files are as before, so no operation has run. For a line that is \<^verbatim>\<open>q\<close> in
  lower case (\<^verbatim>\<open>q\<close> and \<^verbatim>\<open>Q\<close> both are) the loop ends normally after the goodbye
  message, with exit status 0, also as the status of the whole script when the
  programming sequence before the menu has succeeded.
\<close>

theorem menu_loop_invalid_and_quit:
  "(choice \<notin> {''1'', ''2'', ''3'', ''4''} \<and> lower choice \<noteq> ''q'' \<longrightarrow>
      menu_loop info (choice # acknowledged # pending) w =
        menu_loop info pending
          (stdout_write (nl @ ''Press [Enter] to return to the menu...'')
             (py_print (nl @ ''Invalid option.'')
                (main_menu (print_header info (clear_screen w)))))
      \<and> rng (stdout_write (nl @ ''Press [Enter] to return to the menu...'')
             (py_print (nl @ ''Invalid option.'')
                (main_menu (print_header info (clear_screen w))))) = rng w
      \<and> pos (stdout_write (nl @ ''Press [Enter] to return to the menu...'')
             (py_print (nl @ ''Invalid option.'')
                (main_menu (print_header info (clear_screen w))))) = pos w
      \<and> files (stdout_write (nl @ ''Press [Enter] to return to the menu...'')
             (py_print (nl @ ''Invalid option.'')
                (main_menu (print_header info (clear_screen w))))) = files w)
   \<and> (lower choice = ''q'' \<longrightarrow>
      menu_loop info (choice # pending) w =
        (Inr (), py_print (nl @ ''Disconnecting from device...'')
                   (main_menu (print_header info (clear_screen w))))
      \<and> exit_status (fst (menu_loop info (choice # pending) w)) = 0)
   \<and> (lower choice = ''q'' \<and> fst (program_device cfg (clear_screen w)) = Inr ()
        \<longrightarrow> exit_status (fst (main cfg q (choice # pending) w)) = 0)
   \<and> lower ''q'' = ''q'' \<and> lower ''Q'' = ''q''"
proof -
  have "exit_status (fst (main cfg q (choice # pending) w)) = 0"
    if "lower choice = ''q''" and "fst (program_device cfg (clear_screen w)) = Inr ()"
  proof -
    obtain info where info: "get_device_info q = Inr info"
      using get_device_info_fixed_fields [of q] by blast
    obtain r w1 where p: "program_device cfg w = (r, w1)"
      by (cases "program_device cfg w")
    with that(2) have "r = Inr ()"
      by simp
    with p info that(1) show ?thesis
      by (simp add: main_def menu_dispatch_quit)
  qed
  then have m: "lower choice = ''q'' \<and> fst (program_device cfg (clear_screen w)) = Inr ()
        \<longrightarrow> exit_status (fst (main cfg q (choice # pending) w)) = 0"
    by blast
  have i: "choice \<notin> {''1'', ''2'', ''3'', ''4''} \<and> lower choice \<noteq> ''q'' \<longrightarrow>
      menu_loop info (choice # acknowledged # pending) w =
        menu_loop info pending
          (stdout_write (nl @ ''Press [Enter] to return to the menu...'')
             (py_print (nl @ ''Invalid option.'')
                (main_menu (print_header info (clear_screen w)))))"
    using menu_loop_invalid [of choice info acknowledged pending w] by blast
  have s: "rng (stdout_write (nl @ ''Press [Enter] to return to the menu...'')
             (py_print (nl @ ''Invalid option.'')
                (main_menu (print_header info (clear_screen w))))) = rng w"
    "pos (stdout_write (nl @ ''Press [Enter] to return to the menu...'')
             (py_print (nl @ ''Invalid option.'')
                (main_menu (print_header info (clear_screen w))))) = pos w"
    "files (stdout_write (nl @ ''Press [Enter] to return to the menu...'')
             (py_print (nl @ ''Invalid option.'')
                (main_menu (print_header info (clear_screen w))))) = files w"
    by simp_all
  have e: "lower choice = ''q'' \<longrightarrow>
      menu_loop info (choice # pending) w =
        (Inr (), py_print (nl @ ''Disconnecting from device...'')
                   (main_menu (print_header info (clear_screen w))))
      \<and> exit_status (fst (menu_loop info (choice # pending) w)) = 0"
    using menu_loop_quit [of choice info pending w] by (auto simp del: menu_loop.simps)
  have l: "lower ''q'' = ''q''" "lower ''Q'' = ''q''"
    by (simp_all add: lower_q)
  from m i s e l show ?thesis
    by blast
qed

text \<open>The input \<^verbatim>\<open>x\<close>, Enter, \<^verbatim>\<open>Q\<close>: an invalid line, then the quit command.\<close>

theorem menu_loop_invalid_and_quit_witness:
  "''x'' \<notin> {''1'', ''2'', ''3'', ''4''} \<and> lower ''x'' \<noteq> ''q''
   \<and> menu_loop fallback [''x'', [], ''Q''] (demo_world (\<lambda>n. 0) {}) =
       menu_loop fallback [''Q'']
         (stdout_write (nl @ ''Press [Enter] to return to the menu...'')
            (py_print (nl @ ''Invalid option.'')
               (main_menu (print_header fallback (clear_screen (demo_world (\<lambda>n. 0) {}))))))
   \<and> lower ''Q'' = ''q''
   \<and> exit_status (fst (menu_loop fallback [''Q''] (demo_world (\<lambda>n. 0) {}))) = 0"
proof -
  have a: "''x'' \<notin> {''1'', ''2'', ''3'', ''4''} \<and> lower ''x'' \<noteq> ''q''"
    by (simp add: lower_q)
  have b: "lower ''Q'' = ''q''"
    by (simp add: lower_q)
  from menu_loop_invalid_and_quit [of "''x''" fallback "[]" "[''Q'']" "demo_world (\<lambda>n. 0) {}"] a
    menu_loop_invalid_and_quit [of "''Q''" fallback _ "[]" "demo_world (\<lambda>n. 0) {}"] b
  show ?thesis
    by blast
qed


end
